theory Spec2Isabelle
  imports Complex_Main
begin

section \<open>Strings and values of the Python runtime\<close>

text \<open>
  A Python \<open>str\<close> is a sequence of Unicode code points; a code point is a natural number
  and \<open>len\<close> is \<open>length\<close>. \<open>cps\<close> writes an ASCII literal as its code points.
  A Python float is a real number (rounding is not modelled), one of the two infinities,
  or NaN, every comparison with which is false.
\<close>

type_synonym codepoint = nat
type_synonym str = "codepoint list"

datatype pyfloat = FNum real | FPosInf | FNegInf | FNaN

definition cps :: "string \<Rightarrow> str" where
  "cps s = map of_char s"

text \<open>
  A cell of a row or an argument of a helper: a \<open>str\<close>, a number, the NaN that pandas
  puts in an empty cell, or a float cell that holds \<open>inf\<close> or \<open>-inf\<close>.
\<close>

datatype pyval = PStr str | PNum real | PNaN | PInf | PNegInf

text \<open>
  What the code takes from the Python runtime and the repository does not define is a
  parameter of the model: \<open>str.lower\<close> (code point by code point; the context rule for
  the Greek final sigma is not modelled), \<open>str.title\<close>, the word characters of the
  regular expressions' \<open>\b\<close>, the parser behind \<open>float(s)\<close> (\<open>None\<close> when it raises)
  and \<open>str(x)\<close> of a number. The whitespace table below is the one shared by
  \<open>str.strip\<close>, \<open>str.isspace\<close> and the \<open>\s\<close> of a \<open>str\<close> pattern.
\<close>

record py_runtime =
  cp_lower :: "codepoint \<Rightarrow> str"
  str_title :: "str \<Rightarrow> str"
  is_word :: "codepoint \<Rightarrow> bool"
  float_of_str :: "str \<Rightarrow> pyfloat option"
  str_of_num :: "real \<Rightarrow> str"

definition is_space :: "codepoint \<Rightarrow> bool" where
  "is_space c \<longleftrightarrow>
     (9 \<le> c \<and> c \<le> 13) \<or> (28 \<le> c \<and> c \<le> 32) \<or> c = 133 \<or> c = 160 \<or> c = 5760 \<or>
     (8192 \<le> c \<and> c \<le> 8202) \<or> c = 8232 \<or> c = 8233 \<or> c = 8239 \<or> c = 8287 \<or> c = 12288"

definition py_lower :: "py_runtime \<Rightarrow> str \<Rightarrow> str" where
  "py_lower rt s = concat (map (cp_lower rt) s)"

definition lstrip :: "str \<Rightarrow> str" where
  "lstrip s = dropWhile is_space s"

definition rstrip :: "str \<Rightarrow> str" where
  "rstrip s = rev (dropWhile is_space (rev s))"

definition py_strip :: "str \<Rightarrow> str" where
  "py_strip s = rstrip (lstrip s)"

text \<open>\<open>re.sub(r"\s+", " ", text)\<close>: every maximal run of whitespace becomes one space.\<close>

fun collapse_ws :: "str \<Rightarrow> str" where
  "collapse_ws [] = []"
| "collapse_ws [c] = (if is_space c then [32] else [c])"
| "collapse_ws (c # d # cs) =
     (if is_space c then (if is_space d then collapse_ws (d # cs) else 32 # collapse_ws (d # cs))
      else c # collapse_ws (d # cs))"

text \<open>\<open>s.replace(ch, r)\<close> for a \<open>ch\<close> of one code point.\<close>

definition replace_cp :: "codepoint \<Rightarrow> str \<Rightarrow> str \<Rightarrow> str" where
  "replace_cp ch r s = concat (map (\<lambda>c. if c = ch then r else [c]) s)"

text \<open>\<open>"sep".join(parts)\<close>.\<close>

fun join :: "str \<Rightarrow> str list \<Rightarrow> str" where
  "join sep [] = []"
| "join sep [x] = x"
| "join sep (x # y # ys) = x @ sep @ join sep (y # ys)"

text \<open>\<open>p in s\<close> and \<open>s.find(p)\<close>: the least index at which \<open>p\<close> occurs, if any.\<close>

definition starts_with :: "str \<Rightarrow> str \<Rightarrow> bool" where
  "starts_with p s \<longleftrightarrow> take (length p) s = p"

fun find :: "str \<Rightarrow> str \<Rightarrow> nat option" where
  "find p [] = (if p = [] then Some 0 else None)"
| "find p (c # cs) =
     (if starts_with p (c # cs) then Some 0
      else case find p cs of None \<Rightarrow> None | Some i \<Rightarrow> Some (Suc i))"

definition contains :: "str \<Rightarrow> str \<Rightarrow> bool" where
  "contains p s \<longleftrightarrow> find p s \<noteq> None"

text \<open>
  \<open>s[a:b]\<close> with \<open>a \<ge> 0\<close>: a negative \<open>b\<close> counts from the end, and both bounds are
  clamped to the string.
\<close>

definition py_slice :: "str \<Rightarrow> int \<Rightarrow> int \<Rightarrow> str" where
  "py_slice s a b =
     (let n = int (length s);
          a' = min (max 0 a) n;
          b' = (if b < 0 then max 0 (b + n) else min b n)
      in take (nat (b' - a')) (drop (nat a') s))"

section \<open>Helpers of the application\<close>

text \<open>\<open>normalize_text\<close>: the empty string for a value that is not a \<open>str\<close>.\<close>

definition normalize_str :: "py_runtime \<Rightarrow> str \<Rightarrow> str" where
  "normalize_str rt s = py_strip (collapse_ws (py_lower rt s))"

definition normalize_text :: "py_runtime \<Rightarrow> pyval \<Rightarrow> str" where
  "normalize_text rt v = (case v of PStr s \<Rightarrow> normalize_str rt s | _ \<Rightarrow> [])"

text \<open>
  \<open>clean_email\<close>. Each of \<open>INVISIBLE\<close> is deleted, each of \<open>WIDE_SPACES\<close> becomes a
  space, and \<open>WS_EDGES.sub("", s)\<close> deletes the whitespace run at the start and the one at
  the end (\<open>\s+$\<close> is greedy, so it takes the whole final run).
\<close>

definition INVISIBLE :: "codepoint list" where
  "INVISIBLE = [8203, 65279]"

definition WIDE_SPACES :: "codepoint list" where
  "WIDE_SPACES = [160, 8239, 8199, 8201, 8202, 8287, 12288]"

definition clean_str :: "str \<Rightarrow> str" where
  "clean_str s =
     py_strip (foldl (\<lambda>s ch. replace_cp ch [32] s) (foldl (\<lambda>s ch. replace_cp ch [] s) s INVISIBLE)
       WIDE_SPACES)"

definition clean_email :: "pyval \<Rightarrow> str" where
  "clean_email v = (case v of PStr s \<Rightarrow> clean_str s | _ \<Rightarrow> [])"

text \<open>\<open>re.split(r"[,/;|\n]", skills)\<close>: the pieces between separators, empty ones included.\<close>

definition is_sep :: "codepoint \<Rightarrow> bool" where
  "is_sep c \<longleftrightarrow> c = 44 \<or> c = 47 \<or> c = 59 \<or> c = 124 \<or> c = 10"

fun split_on :: "(codepoint \<Rightarrow> bool) \<Rightarrow> str \<Rightarrow> str list" where
  "split_on P [] = [[]]"
| "split_on P (c # cs) =
     (if P c then [] # split_on P cs
      else case split_on P cs of [] \<Rightarrow> [[c]] | w # ws \<Rightarrow> (c # w) # ws)"

definition split_skills :: "py_runtime \<Rightarrow> pyval \<Rightarrow> str list" where
  "split_skills rt skills =
     (case skills of
        PStr s \<Rightarrow> map (\<lambda>x. py_lower rt (py_strip x)) (filter (\<lambda>x. py_strip x \<noteq> []) (split_on is_sep s))
      | _ \<Rightarrow> [])"

text \<open>\<open>d.get(k, dflt)\<close> on a dict written as an association list, and on an optional key.\<close>

definition dict_get :: "('k \<times> 'v) list \<Rightarrow> 'k \<Rightarrow> 'v \<Rightarrow> 'v" where
  "dict_get d k dflt = (case map_of d k of Some v \<Rightarrow> v | None \<Rightarrow> dflt)"

definition or_default :: "'a option \<Rightarrow> 'a \<Rightarrow> 'a" where
  "or_default x dflt = (case x of Some v \<Rightarrow> v | None \<Rightarrow> dflt)"

text \<open>The vocabulary of \<open>encode_education\<close>, in the order of the source.\<close>

definition edu_mapping :: "(str \<times> nat) list" where
  "edu_mapping =
    [([3617, 3633, 3608, 3618, 3617], 0),
     ([3617, 46, 54], 0),
     ([3611, 3623, 3594], 0),
     (cps ''hs'', 0),
     (cps ''high school'', 0),
     ([3611, 3623, 3626], 1),
     ([3629, 3609, 3640, 3611, 3619, 3636, 3597, 3597, 3634], 1),
     (cps ''bachelor'', 1),
     ([3611, 3619, 3636, 3597, 3597, 3634, 3605, 3619, 3637], 1),
     (cps ''ba'', 1),
     (cps ''b.sc'', 1),
     (cps ''b.eng'', 1),
     (cps ''master'', 2),
     ([3611, 3619, 3636, 3597, 3597, 3634, 3650, 3607], 2),
     (cps ''m.sc'', 2),
     (cps ''mba'', 2),
     (cps ''phd'', 3),
     (cps ''doctorate'', 3),
     ([3611, 3619, 3636, 3597, 3597, 3634, 3648, 3629, 3585], 3)]"

definition encode_education :: "py_runtime \<Rightarrow> pyval \<Rightarrow> nat" where
  "encode_education rt level =
     (case level of
        PStr _ \<Rightarrow>
          (let s = normalize_text rt level
           in dict_get edu_mapping s (dict_get edu_mapping (str_title rt s) 0))
      | _ \<Rightarrow> 0)"

section \<open>Configuration\<close>

text \<open>
  The merged configuration \<open>cfg\<close>. A key the code reads with \<open>cfg[...]\<close> is a field; a
  key it reads with \<open>cfg.get(..., default)\<close> is optional. Field names of a row and the
  names of tiers and rule weights are ASCII identifiers, written as \<open>string\<close>.
\<close>

record mitigation =
  whitelist_phrases :: "str list option"
  mitigate_terms :: "str list option"
  mitigation_factor :: "real option"
  context_window :: "int option"

record config =
  rule_weights :: "(string \<times> real) list option"
  training_indicators :: "str list option"
  activity_weights :: "(str \<times> real) list option"
  max_activity_bonus :: "real option"
  global_knockout :: "(string \<times> str list) list option"
  global_knockout_weights :: "(string \<times> real) list option"
  global_knockout_cap :: "real option"
  global_mitigation :: "mitigation option"
  must_have_skills :: "str list"
  nice_to_have_skills :: "str list option"
  min_years_experience :: real
  min_education_level :: str
  knockout_phrases :: "str list option"
  age_range :: "(real \<times> real) option"
  text_fields :: "string list"

text \<open>\<open>DEFAULT_RULES\<close>, key by key.\<close>

definition DEFAULT_rule_weights :: "(string \<times> real) list" where
  "DEFAULT_rule_weights =
    [(''exp_under'', - 1), (''exp_meet'', 1 / 5), (''edu_under'', - 1),
     (''must_missing'', - (3 / 2)), (''must_all'', 1 / 2), (''knockout'', - 2),
     (''nice_each'', 3 / 10), (''training_ctx'', - (1 / 2)), (''low_exp_skill'', - (3 / 10)),
     (''age_out'', - 1), (''age_in'', 1 / 5)]"

definition DEFAULT_training_indicators :: "str list" where
  "DEFAULT_training_indicators =
    [[3629, 3610, 3619, 3617],
     [3626, 3633, 3617, 3617, 3609, 3634],
     [3648, 3623, 3636, 3619, 3660, 3585, 3594, 3629, 3611],
     cps ''workshop'',
     cps ''training'',
     [3588, 3629, 3619, 3660, 3626],
     cps ''course'',
     cps ''certificate'',
     cps ''certification'']"

definition DEFAULT_activity_weights :: "(str \<times> real) list" where
  "DEFAULT_activity_weights = []"

definition DEFAULT_max_activity_bonus :: real where
  "DEFAULT_max_activity_bonus = 0"

definition DEFAULT_age_range :: "real \<times> real" where
  "DEFAULT_age_range = (18, 60)"

definition DEFAULT_global_knockout :: "(string \<times> str list) list" where
  "DEFAULT_global_knockout =
    [(''hard'',
      [[3604, 3656, 3634, 3610, 3619, 3636, 3625, 3633, 3607, 3648, 3585, 3656, 3634],
       [3604, 3656, 3634, 3627, 3633, 3623, 3627, 3609, 3657, 3634, 3648, 3585, 3656, 3634],
       [3650, 3585, 3591],
       [3607, 3640, 3592, 3619, 3636, 3605],
       [3611, 3621, 3629, 3617, 3648, 3629, 3585, 3626, 3634, 3619],
       [3648, 3611, 3636, 3604, 3648, 3612, 3618, 3588, 3623, 3634, 3617, 3621, 3633, 3610, 3610, 3619, 3636, 3625, 3633, 3607],
       [3648, 3585, 3621, 3637, 3618, 3604, 3621, 3641, 3585, 3588, 3657, 3634],
       [3585, 3657, 3634, 3623, 3619, 3657, 3634, 3623],
       [3651, 3594, 3657, 3588, 3623, 3634, 3617, 3619, 3640, 3609, 3649, 3619, 3591]]),
     (''soft'',
      [[3652, 3617, 3656, 3594, 3629, 3610, 3607, 3635, 3591, 3634, 3609, 3648, 3611, 3655, 3609, 3607, 3637, 3617],
       [3652, 3617, 3656, 3594, 3629, 3610, 3648, 3592, 3629, 3588, 3609, 3648, 3618, 3629, 3632],
       [3652, 3617, 3656, 3606, 3609, 3633, 3604, 3605, 3633, 3623, 3648, 3621, 3586],
       [3617, 3634, 3626, 3634, 3618, 3610, 3656, 3629, 3618],
       [3652, 3617, 3656, 3614, 3619, 3657, 3629, 3617, 3607, 3635, 3591, 3634, 3609, 3621, 3656, 3623, 3591, 3648, 3623, 3621, 3634],
       [3652, 3617, 3656, 3614, 3619, 3657, 3629, 3617, 3607, 3635, 3591, 3634, 3609, 3623, 3633, 3609, 3627, 3618, 3640, 3604],
       [3652, 3617, 3656, 3594, 3629, 3610, 3591, 3634, 3609, 3595, 3657, 3635, 32, 3654],
       [3652, 3617, 3656, 3629, 3618, 3634, 3585, 3648, 3619, 3637, 3618, 3609, 3619, 3641, 3657, 3648, 3614, 3636, 3656, 3617],
       [3652, 3617, 3656, 3606, 3609, 3633, 3604, 3649, 3585, 3657, 3650, 3588, 3657, 3604, 3588, 3609, 3629, 3639, 3656, 3609],
       [3652, 3617, 3656, 3621, 3632, 3648, 3629, 3637, 3618, 3604],
       [3652, 3617, 3656, 3621, 3632, 3648, 3629, 3637, 3618, 3604, 3619, 3629, 3610, 3588, 3629, 3610]]),
     (''review'',
      [[3621, 3634, 3629, 3629, 3585, 3648, 3614, 3619, 3634, 3632, 3586, 3633, 3604, 3649, 3618, 3657, 3591, 3626, 3656, 3623, 3609, 3605, 3633, 3623],
       [3652, 3617, 3656, 3606, 3641, 3585, 3585, 3633, 3610, 3627, 3633, 3623, 3627, 3609, 3657, 3634, 3648, 3585, 3656, 3634],
       [3621, 3634, 3629, 3629, 3585, 3607, 3633, 3609, 3607, 3637],
       [3607, 3635, 3591, 3634, 3609, 3652, 3617, 3656, 3609, 3634, 3609]])]"

definition DEFAULT_global_knockout_weights :: "(string \<times> real) list" where
  "DEFAULT_global_knockout_weights = [(''hard'', - 2), (''soft'', - 1), (''review'', 0)]"

definition DEFAULT_global_knockout_cap :: real where
  "DEFAULT_global_knockout_cap = - (5 / 2)"

definition DEFAULT_whitelist_phrases :: "str list" where
  "DEFAULT_whitelist_phrases =
       [[3648, 3588, 3618, 3652, 3617, 3656, 3606, 3609, 3633, 3604, 3605, 3633, 3623, 3648, 3621, 3586, 32, 3649, 3605, 3656, 3585, 3635, 3621, 3633, 3591, 3614, 3633, 3602, 3609, 3634],
        [3648, 3588, 3618, 3652, 3617, 3656, 3606, 3609, 3633, 3604, 3605, 3633, 3623, 3648, 3621, 3586, 32, 3649, 3605, 3656, 3613, 3638, 3585, 3592, 3609, 3607, 3635, 3652, 3604, 3657],
        [3648, 3588, 3618, 3652, 3617, 3656, 3594, 3629, 3610, 3607, 3635, 3591, 3634, 3609, 3648, 3611, 3655, 3609, 3607, 3637, 3617, 32, 3649, 3605, 3656, 3611, 3619, 3633, 3610, 3605, 3633, 3623, 3652, 3604, 3657],
        [3649, 3617, 3657, 3652, 3617, 3656, 3617, 3637, 3611, 3619, 3632, 3626, 3610, 3585, 3634, 3619, 3603, 3660, 32, 3649, 3605, 3656, 3648, 3619, 3637, 3618, 3609, 3619, 3641, 3657, 3648, 3619, 3655, 3623],
        [3618, 3629, 3617, 3619, 3633, 3610, 3586, 3657, 3629, 3612, 3636, 3604, 3614, 3621, 3634, 3604, 3649, 3621, 3632, 3611, 3619, 3633, 3610, 3611, 3619, 3640, 3591]]"

definition DEFAULT_mitigate_terms :: "str list" where
  "DEFAULT_mitigate_terms =
       [[3649, 3605, 3656],
        [3585, 3635, 3621, 3633, 3591, 3614, 3633, 3602, 3609, 3634],
        [3585, 3635, 3621, 3633, 3591, 3648, 3619, 3637, 3618, 3609, 3619, 3641, 3657],
        [3614, 3633, 3602, 3609, 3634],
        [3611, 3619, 3633, 3610, 3611, 3619, 3640, 3591],
        [3605, 3633, 3657, 3591, 3651, 3592, 3613, 3638, 3585],
        [3648, 3619, 3637, 3618, 3609, 3648, 3614, 3636, 3656, 3617],
        [3592, 3609, 3607, 3635, 3652, 3604, 3657],
        [3649, 3585, 3657, 3652, 3586]]"

definition DEFAULT_global_mitigation :: mitigation where
  "DEFAULT_global_mitigation =
    \<lparr>whitelist_phrases = Some DEFAULT_whitelist_phrases,
     mitigate_terms = Some DEFAULT_mitigate_terms,
     mitigation_factor = Some (1 / 2),
     context_window = Some 50\<rparr>"

section \<open>The global knockout evaluator\<close>

text \<open>
  An entry of the hit trace: \<open>f"{p}~whitelist"\<close>, \<open>f"{p}:{level}*{factor:.1f}"\<close> or
  \<open>f"{p}:{level}"\<close>, kept as the template and the values it formats.
\<close>

datatype gk_hit = Whitelisted str | Mitigated str string real | Unmitigated str string

text \<open>
  The body of the inner loop of \<open>_apply_global_knockout\<close> for one phrase of one tier: what
  it adds to \<open>penalty\<close> and what it appends to \<open>hits\<close>. \<open>wlist\<close> and \<open>mterms\<close> are the
  normalized lists; the whitelist test normalizes each entry once more, as the source does.
\<close>

definition gk_phrase ::
  "py_runtime \<Rightarrow> str \<Rightarrow> str list \<Rightarrow> str list \<Rightarrow> real \<Rightarrow> int \<Rightarrow> (string \<times> real) list \<Rightarrow>
   string \<Rightarrow> str \<Rightarrow> real \<times> gk_hit list" where
  "gk_phrase rt blob wlist mterms factor ctx weights level phrase =
     (let p = normalize_text rt (PStr phrase) in
      if p = [] then (0, [])
      else case find p blob of
        None \<Rightarrow> (0, [])
      | Some pos \<Rightarrow>
          if list_ex (\<lambda>w. contains (normalize_text rt (PStr w)) blob) wlist
          then (0, [Whitelisted p])
          else
            (let start = max 0 (int pos - ctx);
                 end = min (int (length blob)) (int pos + int (length p) + ctx);
                 window = py_slice blob start end;
                 weight = dict_get weights level 0
             in if list_ex (\<lambda>t. contains t window) mterms \<and> weight < 0
                then (weight * factor, [Mitigated p level factor])
                else (weight, [Unmitigated p level])))"

text \<open>
  The two loops, over the tiers in their fixed order and over the phrases of a tier;
  \<open>gk_add\<close> is \<open>penalty += weight\<close> with the \<open>hits.append\<close> of the same iteration.
\<close>

definition gk_add :: "real \<times> gk_hit list \<Rightarrow> real \<times> gk_hit list \<Rightarrow> real \<times> gk_hit list" where
  "gk_add st r = (fst st + fst r, snd st @ snd r)"

definition gk_scan ::
  "py_runtime \<Rightarrow> str \<Rightarrow> str list \<Rightarrow> str list \<Rightarrow> real \<Rightarrow> int \<Rightarrow> (string \<times> real) list \<Rightarrow>
   (string \<times> str list) list \<Rightarrow> real \<times> gk_hit list" where
  "gk_scan rt blob wlist mterms factor ctx weights gk =
     foldl (\<lambda>acc level.
        foldl (\<lambda>acc phrase. gk_add acc (gk_phrase rt blob wlist mterms factor ctx weights level phrase))
          acc (dict_get gk level []))
       (0, []) [''hard'', ''soft'', ''review'']"

definition gk_cap :: "config \<Rightarrow> real" where
  "gk_cap cfg = or_default (global_knockout_cap cfg) DEFAULT_global_knockout_cap"

definition gk_mitigation :: "config \<Rightarrow> mitigation" where
  "gk_mitigation cfg = or_default (global_mitigation cfg) DEFAULT_global_mitigation"

definition gk_wlist :: "py_runtime \<Rightarrow> config \<Rightarrow> str list" where
  "gk_wlist rt cfg =
     map (\<lambda>x. normalize_text rt (PStr x)) (or_default (whitelist_phrases (gk_mitigation cfg)) [])"

definition gk_mterms :: "py_runtime \<Rightarrow> config \<Rightarrow> str list" where
  "gk_mterms rt cfg =
     map (\<lambda>x. normalize_text rt (PStr x)) (or_default (mitigate_terms (gk_mitigation cfg)) [])"

definition gk_factor :: "config \<Rightarrow> real" where
  "gk_factor cfg = or_default (mitigation_factor (gk_mitigation cfg)) (1 / 2)"

definition gk_ctx :: "config \<Rightarrow> int" where
  "gk_ctx cfg = or_default (context_window (gk_mitigation cfg)) 50"

definition gk_weights :: "config \<Rightarrow> (string \<times> real) list" where
  "gk_weights cfg = or_default (global_knockout_weights cfg) DEFAULT_global_knockout_weights"

definition gk_lists :: "config \<Rightarrow> (string \<times> str list) list" where
  "gk_lists cfg = or_default (global_knockout cfg) DEFAULT_global_knockout"

text \<open>The running penalty and the hits before the clamp, with the settings read from \<open>cfg\<close>.\<close>

definition gk_running :: "py_runtime \<Rightarrow> str \<Rightarrow> config \<Rightarrow> real \<times> gk_hit list" where
  "gk_running rt blob cfg =
     gk_scan rt blob (gk_wlist rt cfg) (gk_mterms rt cfg) (gk_factor cfg) (gk_ctx cfg)
       (gk_weights cfg) (gk_lists cfg)"

text \<open>\<open>_apply_global_knockout(blob, cfg)\<close>.\<close>

definition apply_global_knockout :: "py_runtime \<Rightarrow> str \<Rightarrow> config \<Rightarrow> real \<times> gk_hit list" where
  "apply_global_knockout rt blob cfg =
     (case gk_running rt blob cfg of
        (penalty, hits) \<Rightarrow> (if penalty < gk_cap cfg then gk_cap cfg else penalty, hits))"

section \<open>The rule scoring engine\<close>

text \<open>
  A row is a mapping from column names to cells; \<open>row.get(k, dflt)\<close> is \<open>row_get\<close>.
  \<open>_to_num\<close> is \<open>float(x)\<close>, with 0.0 when it raises.
\<close>

type_synonym row = "string \<Rightarrow> pyval option"

definition row_get :: "row \<Rightarrow> string \<Rightarrow> pyval \<Rightarrow> pyval" where
  "row_get r k dflt = (case r k of Some v \<Rightarrow> v | None \<Rightarrow> dflt)"

definition to_num :: "py_runtime \<Rightarrow> pyval \<Rightarrow> pyfloat" where
  "to_num rt x =
     (case x of
        PNum r \<Rightarrow> FNum r
      | PNaN \<Rightarrow> FNaN
      | PInf \<Rightarrow> FPosInf
      | PNegInf \<Rightarrow> FNegInf
      | PStr s \<Rightarrow> (case float_of_str rt s of Some f \<Rightarrow> f | None \<Rightarrow> FNum 0))"

definition py_str :: "py_runtime \<Rightarrow> pyval \<Rightarrow> str" where
  "py_str rt v =
     (case v of
        PStr s \<Rightarrow> s
      | PNum r \<Rightarrow> str_of_num rt r
      | PNaN \<Rightarrow> cps ''nan''
      | PInf \<Rightarrow> cps ''inf''
      | PNegInf \<Rightarrow> cps ''-inf'')"

text \<open>
  \<open>x < c\<close>, \<open>x >= c\<close> and \<open>x <= c\<close> for a float \<open>x\<close> and a finite \<open>c\<close>; the sum
  \<open>x + y\<close> and the quotient \<open>x / c\<close> by a finite \<open>c > 0\<close>, with the infinities and NaN
  as IEEE 754 treats them.
\<close>

definition flt :: "pyfloat \<Rightarrow> real \<Rightarrow> bool" where
  "flt x c = (case x of FNum a \<Rightarrow> a < c | FNegInf \<Rightarrow> True | _ \<Rightarrow> False)"

definition fge :: "pyfloat \<Rightarrow> real \<Rightarrow> bool" where
  "fge x c = (case x of FNum a \<Rightarrow> c \<le> a | FPosInf \<Rightarrow> True | _ \<Rightarrow> False)"

definition fle :: "pyfloat \<Rightarrow> real \<Rightarrow> bool" where
  "fle x c = (case x of FNum a \<Rightarrow> a \<le> c | FNegInf \<Rightarrow> True | _ \<Rightarrow> False)"

definition fadd :: "pyfloat \<Rightarrow> pyfloat \<Rightarrow> pyfloat" where
  "fadd x y =
     (case (x, y) of
        (FNum a, FNum b) \<Rightarrow> FNum (a + b)
      | (FNaN, _) \<Rightarrow> FNaN
      | (_, FNaN) \<Rightarrow> FNaN
      | (FPosInf, FNegInf) \<Rightarrow> FNaN
      | (FNegInf, FPosInf) \<Rightarrow> FNaN
      | (FPosInf, _) \<Rightarrow> FPosInf
      | (_, FPosInf) \<Rightarrow> FPosInf
      | (FNegInf, _) \<Rightarrow> FNegInf
      | (_, FNegInf) \<Rightarrow> FNegInf)"

definition fdiv_pos :: "pyfloat \<Rightarrow> real \<Rightarrow> pyfloat" where
  "fdiv_pos x c = (case x of FNum a \<Rightarrow> FNum (a / c) | _ \<Rightarrow> x)"

text \<open>
  What \<open>rule_score\<close> can raise. \<open>int(x)\<close> truncates a finite float toward zero; it raises
  \<open>OverflowError\<close> on an infinity and \<open>ValueError\<close> on NaN.
\<close>

datatype error = OverflowError | ValueError

definition py_int :: "pyfloat \<Rightarrow> error + int" where
  "py_int x =
     (case x of
        FNum a \<Rightarrow> Inr (if 0 \<le> a then \<lfloor>a\<rfloor> else \<lceil>a\<rceil>)
      | FNaN \<Rightarrow> Inl ValueError
      | _ \<Rightarrow> Inl OverflowError)"

text \<open>
  A reason string, kept as the template of the source and the values it formats, in the
  order in which \<open>rule_score\<close> can append them.
\<close>

datatype reason =
    ExpUnder pyfloat real
  | ExpMeet pyfloat
  | EduUnder str
  | MustMissing "str list"
  | MustAll
  | GlobalKnockout "gk_hit list"
  | DeptKnockout str
  | TrainingContext str
  | NiceToHave "str list"
  | LowExpSkill str real
  | AgeOut int "real \<times> real"
  | AgeIn int
  | AgeUnspecified
  | ActivityTrainingLike
  | ActivityBonus "(str \<times> real) list" real

text \<open>
  The state of \<open>rule_score\<close> is \<open>(score, reasons)\<close>. Each block of the function is
  modelled by what it adds to \<open>score\<close> and what it appends to \<open>reasons\<close>; \<open>then_rule\<close>
  applies that to the state, and \<open>for_each\<close> is a \<open>for\<close> loop over a list.
\<close>

definition then_rule :: "real \<times> reason list \<Rightarrow> real \<times> reason list \<Rightarrow> real \<times> reason list" where
  "then_rule st r = (fst st + fst r, snd st @ snd r)"

definition for_each :: "('a \<Rightarrow> real \<times> reason list) \<Rightarrow> 'a list \<Rightarrow> real \<times> reason list" where
  "for_each body xs = foldl (\<lambda>st x. then_rule st (body x)) (0, []) xs"

definition weights_of :: "config \<Rightarrow> (string \<times> real) list" where
  "weights_of cfg = or_default (rule_weights cfg) DEFAULT_rule_weights"

definition total_years :: "py_runtime \<Rightarrow> row \<Rightarrow> pyfloat" where
  "total_years rt r =
     (let y = to_num rt (row_get r ''years_experience'' (PNum 0));
          m = to_num rt (row_get r ''months_experience'' (PNum 0))
      in fadd y (fdiv_pos m 12))"

definition skills_of :: "py_runtime \<Rightarrow> row \<Rightarrow> str set" where
  "skills_of rt r = set (split_skills rt (row_get r ''skills'' (PStr [])))"

definition blob_of :: "py_runtime \<Rightarrow> row \<Rightarrow> config \<Rightarrow> str" where
  "blob_of rt r cfg =
     join [32] (map (\<lambda>f. normalize_text rt (PStr (py_str rt (row_get r f (PStr []))))) (text_fields cfg))"

definition exp_rule :: "py_runtime \<Rightarrow> row \<Rightarrow> config \<Rightarrow> real \<times> reason list" where
  "exp_rule rt r cfg =
     (let total = total_years rt r in
      if flt total (min_years_experience cfg)
      then (dict_get (weights_of cfg) ''exp_under'' (- 1), [ExpUnder total (min_years_experience cfg)])
      else (dict_get (weights_of cfg) ''exp_meet'' (1 / 5), [ExpMeet total]))"

definition edu_rule :: "py_runtime \<Rightarrow> row \<Rightarrow> config \<Rightarrow> real \<times> reason list" where
  "edu_rule rt r cfg =
     (if encode_education rt (row_get r ''education_level'' (PStr []))
           < encode_education rt (PStr (min_education_level cfg))
      then (dict_get (weights_of cfg) ''edu_under'' (- 1), [EduUnder (min_education_level cfg)])
      else (0, []))"

definition must_rule :: "py_runtime \<Rightarrow> row \<Rightarrow> config \<Rightarrow> real \<times> reason list" where
  "must_rule rt r cfg =
     (let miss = filter (\<lambda>s. s \<notin> skills_of rt r) (must_have_skills cfg) in
      if miss \<noteq> []
      then (dict_get (weights_of cfg) ''must_missing'' (- (3 / 2)), [MustMissing miss])
      else (dict_get (weights_of cfg) ''must_all'' (1 / 2), [MustAll]))"

definition gk_rule :: "py_runtime \<Rightarrow> row \<Rightarrow> config \<Rightarrow> real \<times> reason list" where
  "gk_rule rt r cfg =
     (case apply_global_knockout rt (blob_of rt r cfg) cfg of
        (gk_pen, gk_hits) \<Rightarrow> (gk_pen, if gk_hits \<noteq> [] then [GlobalKnockout gk_hits] else []))"

definition dept_knockout_rule :: "py_runtime \<Rightarrow> row \<Rightarrow> config \<Rightarrow> real \<times> reason list" where
  "dept_knockout_rule rt r cfg =
     for_each (\<lambda>phrase.
         if contains (normalize_text rt (PStr phrase)) (blob_of rt r cfg)
         then (dict_get (weights_of cfg) ''knockout'' (- 2), [DeptKnockout phrase])
         else (0, []))
       (or_default (knockout_phrases cfg) [])"

text \<open>
  The two compiled patterns of the training-context check, for a skill \<open>s\<close>:
  \<open>ind_alt + r".{0,40}\b" + s_esc + r"\b"\<close> and \<open>r"\b" + s_esc + r"\b.{0,40}" + ind_alt\<close>,
  where \<open>ind_alt\<close> is the alternation of the escaped indicators (of the empty string only,
  when there is no indicator). \<open>search\<close> succeeds when the pattern matches at some index:
  an indicator, at most 40 code points other than a newline, and the skill between two
  word boundaries.
\<close>

definition match_at :: "str \<Rightarrow> str \<Rightarrow> nat \<Rightarrow> bool" where
  "match_at p s k \<longleftrightarrow> k \<le> length s \<and> starts_with p (drop k s)"

definition word_boundary :: "py_runtime \<Rightarrow> str \<Rightarrow> nat \<Rightarrow> bool" where
  "word_boundary rt s k \<longleftrightarrow>
     (0 < k \<and> k \<le> length s \<and> is_word rt (s ! (k - 1))) \<noteq> (k < length s \<and> is_word rt (s ! k))"

definition dots :: "str \<Rightarrow> nat \<Rightarrow> nat \<Rightarrow> bool" where
  "dots s j g \<longleftrightarrow> j + g \<le> length s \<and> list_all (\<lambda>c. c \<noteq> 10) (take g (drop j s))"

definition ind_alt :: "str list \<Rightarrow> str list" where
  "ind_alt inds = (if inds = [] then [[]] else inds)"

definition ps1_search :: "py_runtime \<Rightarrow> str list \<Rightarrow> str \<Rightarrow> str \<Rightarrow> bool" where
  "ps1_search rt inds s blob =
     list_ex (\<lambda>i.
        list_ex (\<lambda>ind.
           if match_at ind blob i
           then list_ex (\<lambda>g.
                  if dots blob (i + length ind) g \<and> match_at s blob (i + length ind + g)
                  then word_boundary rt blob (i + length ind + g) \<and>
                       word_boundary rt blob (i + length ind + g + length s)
                  else False) [0..<41]
           else False) (ind_alt inds))
       [0..<Suc (length blob)]"

definition ps2_search :: "py_runtime \<Rightarrow> str list \<Rightarrow> str \<Rightarrow> str \<Rightarrow> bool" where
  "ps2_search rt inds s blob =
     list_ex (\<lambda>i.
        if match_at s blob i
        then word_boundary rt blob i \<and> word_boundary rt blob (i + length s) \<and>
             list_ex (\<lambda>g.
                if dots blob (i + length s) g
                then list_ex (\<lambda>ind. match_at ind blob (i + length s + g)) (ind_alt inds)
                else False) [0..<41]
        else False)
       [0..<Suc (length blob)]"

definition indicators_of :: "config \<Rightarrow> str list" where
  "indicators_of cfg = or_default (training_indicators cfg) DEFAULT_training_indicators"

definition training_rule :: "py_runtime \<Rightarrow> row \<Rightarrow> config \<Rightarrow> real \<times> reason list" where
  "training_rule rt r cfg =
     for_each (\<lambda>s.
         if ps1_search rt (indicators_of cfg) s (blob_of rt r cfg) \<or>
            ps2_search rt (indicators_of cfg) s (blob_of rt r cfg)
         then (dict_get (weights_of cfg) ''training_ctx'' (- (1 / 2)), [TrainingContext s])
         else (0, []))
       (must_have_skills cfg)"

definition nice_rule :: "py_runtime \<Rightarrow> row \<Rightarrow> config \<Rightarrow> real \<times> reason list" where
  "nice_rule rt r cfg =
     (let nice = filter (\<lambda>s. s \<in> skills_of rt r) (or_default (nice_to_have_skills cfg) []) in
      if nice \<noteq> []
      then (dict_get (weights_of cfg) ''nice_each'' (3 / 10) * real (length nice), [NiceToHave nice])
      else (0, []))"

definition low_exp :: "config \<Rightarrow> real" where
  "low_exp cfg = max (1 / 2) (min_years_experience cfg / 2)"

definition low_exp_rule :: "py_runtime \<Rightarrow> row \<Rightarrow> config \<Rightarrow> real \<times> reason list" where
  "low_exp_rule rt r cfg =
     for_each (\<lambda>s.
         if s \<in> skills_of rt r \<and> flt (total_years rt r) (low_exp cfg)
         then (dict_get (weights_of cfg) ''low_exp_skill'' (- (3 / 10)), [LowExpSkill s (low_exp cfg)])
         else (0, []))
       (must_have_skills cfg)"

text \<open>
  The age block. Both reasons format \<open>int(age_val)\<close>, outside the \<open>try\<close> of \<open>_to_num\<close>,
  so what \<open>int\<close> raises leaves \<open>rule_score\<close>: the block is an error or what it adds.
\<close>

definition age_rule :: "py_runtime \<Rightarrow> row \<Rightarrow> config \<Rightarrow> error + real \<times> reason list" where
  "age_rule rt r cfg =
     (let age_val = to_num rt (row_get r ''age'' (PNum (- 1)));
          rng = or_default (age_range cfg) DEFAULT_age_range
      in if fge age_val 0
         then (if \<not> (fge age_val (fst rng) \<and> fle age_val (snd rng))
               then (case py_int age_val of
                       Inl e \<Rightarrow> Inl e
                     | Inr n \<Rightarrow> Inr (dict_get (weights_of cfg) ''age_out'' (- 1), [AgeOut n rng]))
               else (case py_int age_val of
                       Inl e \<Rightarrow> Inl e
                     | Inr n \<Rightarrow> Inr (dict_get (weights_of cfg) ''age_in'' (1 / 5), [AgeIn n])))
         else Inr (0, [AgeUnspecified]))"

text \<open>
  The activity block: the loop over \<open>aw.items()\<close> with its state \<open>(bonus, hits)\<close>, then
  the decision on the bonus.
\<close>

definition acts_of :: "py_runtime \<Rightarrow> row \<Rightarrow> str" where
  "acts_of rt r = normalize_text rt (PStr (py_str rt (row_get r ''activities'' (PStr []))))"

definition is_training_like_activity :: "py_runtime \<Rightarrow> row \<Rightarrow> config \<Rightarrow> bool" where
  "is_training_like_activity rt r cfg =
     list_ex (\<lambda>ind. contains (normalize_text rt (PStr ind)) (acts_of rt r)) (indicators_of cfg)"

definition activity_scan :: "py_runtime \<Rightarrow> row \<Rightarrow> config \<Rightarrow> real \<times> (str \<times> real) list" where
  "activity_scan rt r cfg =
     foldl (\<lambda>(bonus, hits) (k, wt).
         if contains (normalize_text rt (PStr k)) (acts_of rt r)
         then (bonus + wt, hits @ [(k, wt)])
         else (bonus, hits))
       (0, []) (or_default (activity_weights cfg) DEFAULT_activity_weights)"

definition max_bonus_of :: "config \<Rightarrow> real" where
  "max_bonus_of cfg = or_default (max_activity_bonus cfg) DEFAULT_max_activity_bonus"

definition activity_rule :: "py_runtime \<Rightarrow> row \<Rightarrow> config \<Rightarrow> real \<times> reason list" where
  "activity_rule rt r cfg =
     (case activity_scan rt r cfg of
        (bonus, hits) \<Rightarrow>
          if bonus > 0
          then (if is_training_like_activity rt r cfg
                then (0, [ActivityTrainingLike])
                else (min bonus (max_bonus_of cfg), [ActivityBonus hits (min bonus (max_bonus_of cfg))]))
          else (0, []))"

text \<open>
  \<open>rule_score(row, cfg)\<close>: the blocks in the order of the source, from \<open>(0.0, [])\<close>.
  The age block is the only one that can raise, and the blocks before it change nothing
  but the local \<open>score\<close> and \<open>reasons\<close>: its error is the outcome of the whole call.
\<close>

definition rule_score :: "py_runtime \<Rightarrow> row \<Rightarrow> config \<Rightarrow> error + real \<times> reason list" where
  "rule_score rt r cfg =
     (case age_rule rt r cfg of
        Inl e \<Rightarrow> Inl e
      | Inr age \<Rightarrow>
          Inr (foldl then_rule (0, [])
            [exp_rule rt r cfg,
             edu_rule rt r cfg,
             must_rule rt r cfg,
             gk_rule rt r cfg,
             dept_knockout_rule rt r cfg,
             training_rule rt r cfg,
             nice_rule rt r cfg,
             low_exp_rule rt r cfg,
             age,
             activity_rule rt r cfg]))"

section \<open>The score blender\<close>

text \<open>
  The blend of the screening loop,
  \<open>final = 0.7 * float(proba[i]) + 0.3 * (1 / (1 + np.exp(-rscore)))\<close>, and
  \<open>bucket_level\<close>, whose two labels are the Thai words for "pass" and "fail".
\<close>

definition final_priority :: "real \<Rightarrow> real \<Rightarrow> real" where
  "final_priority proba rscore = 0.7 * proba + 0.3 * (1 / (1 + exp (- rscore)))"

definition label_pass :: str where
  "label_pass = [3612, 3656, 3634, 3609]"

definition label_fail :: str where
  "label_fail = [3652, 3617, 3656, 3612, 3656, 3634, 3609]"

definition bucket_level :: "real \<Rightarrow> real \<Rightarrow> str" where
  "bucket_level final pass_cut = (if final \<ge> pass_cut then label_pass else label_fail)"

text \<open>The logistic function as the specification writes it.\<close>

definition sigmoid :: "real \<Rightarrow> real" where
  "sigmoid x = 1 / (1 + exp (- x))"

section \<open>The position of a reason in the evaluation order\<close>

text \<open>
  The ten stages of the scoring trace: experience, education, must-have skills, global
  knockouts, department knockouts, training context, nice-to-have, low experience, age,
  activity.
\<close>

fun stage :: "reason \<Rightarrow> nat" where
  "stage (ExpUnder _ _) = 0"
| "stage (ExpMeet _) = 0"
| "stage (EduUnder _) = 1"
| "stage (MustMissing _) = 2"
| "stage MustAll = 2"
| "stage (GlobalKnockout _) = 3"
| "stage (DeptKnockout _) = 4"
| "stage (TrainingContext _) = 5"
| "stage (NiceToHave _) = 6"
| "stage (LowExpSkill _ _) = 7"
| "stage (AgeOut _ _) = 8"
| "stage (AgeIn _) = 8"
| "stage AgeUnspecified = 8"
| "stage ActivityTrainingLike = 9"
| "stage (ActivityBonus _ _) = 9"

section \<open>A runtime and a merged policy for concrete runs\<close>

text \<open>
  \<open>latin_rt\<close> agrees with CPython on ASCII and Thai text: ASCII capitals are lowered and
  Thai has no case; the word characters are the ASCII letters, digits and underscore, and
  the Thai letters and digits (the Thai combining marks are not word characters).
  \<open>str.title\<close> capitalises the first letter of each run of ASCII letters. The concrete
  runs below use numbers in numeric cells and strings in text cells, so the last two
  operations are never consulted there.
\<close>

definition ascii_upper :: "codepoint \<Rightarrow> bool" where
  "ascii_upper c \<longleftrightarrow> 65 \<le> c \<and> c \<le> 90"

definition ascii_lower :: "codepoint \<Rightarrow> bool" where
  "ascii_lower c \<longleftrightarrow> 97 \<le> c \<and> c \<le> 122"

fun title_from :: "bool \<Rightarrow> str \<Rightarrow> str" where
  "title_from prev [] = []"
| "title_from prev (c # cs) =
     (if ascii_upper c then (if prev then c + 32 else c) # title_from True cs
      else if ascii_lower c then (if prev then c else c - 32) # title_from True cs
      else c # title_from False cs)"

definition latin_word :: "codepoint \<Rightarrow> bool" where
  "latin_word c \<longleftrightarrow>
     (48 \<le> c \<and> c \<le> 57) \<or> ascii_upper c \<or> c = 95 \<or> ascii_lower c \<or>
     (3585 \<le> c \<and> c \<le> 3632) \<or> c = 3634 \<or> c = 3635 \<or> (3648 \<le> c \<and> c \<le> 3654) \<or>
     (3664 \<le> c \<and> c \<le> 3673)"

definition latin_rt :: py_runtime where
  "latin_rt =
    \<lparr>cp_lower = (\<lambda>c. if ascii_upper c then [c + 32] else [c]),
     str_title = title_from False,
     is_word = latin_word,
     float_of_str = (\<lambda>s. None),
     str_of_num = (\<lambda>x. [])\<rparr>"

text \<open>
  The merged policy of the department "Programmer":
  \<open>{**DEFAULT_RULES, **DEPARTMENTS_CFG["Programmer"], **DEFAULT_BASE}\<close>.
\<close>

definition thai_bachelor :: str where
  "thai_bachelor = [3611, 3619, 3636, 3597, 3597, 3634, 3605, 3619, 3637]"

definition Programmer_activity_weights :: "(str \<times> real) list" where
  "Programmer_activity_weights =
       [([3650, 3611, 3619, 3648, 3592, 3585, 3605, 3660], 3 / 5),
        (cps ''project'', 3 / 5),
        (cps ''hackathon'', 3 / 5),
        ([3649, 3586, 3656, 3591, 3586, 3633, 3609, 3648, 3586, 3637, 3618, 3609, 3650, 3611, 3619, 3649, 3585, 3619, 3617], 3 / 5),
        (cps ''open source'', 3 / 5),
        (cps ''github'', 1 / 2),
        ([3626, 3619, 3657, 3634, 3591, 3649, 3629, 3611], 3 / 5),
        (cps ''web app'', 1 / 2),
        (cps ''mobile app'', 1 / 2)]"

definition Programmer_must_have_skills :: "str list" where
  "Programmer_must_have_skills =
     [cps ''php'', cps ''python'', cps ''javascript'', cps ''sql'', cps ''debugging'', cps ''agile'']"

definition Programmer_nice_to_have_skills :: "str list" where
  "Programmer_nice_to_have_skills =
     [cps ''ux/ui'', cps ''cloud'', cps ''aws'', cps ''azure'', cps ''cybersecurity'']"

definition Programmer_knockout_phrases :: "str list" where
  "Programmer_knockout_phrases =
       [[3652, 3617, 3656, 3594, 3629, 3610, 3607, 3635, 3591, 3634, 3609, 3648, 3611, 3655, 3609, 3607, 3637, 3617],
        [3652, 3617, 3656, 3606, 3609, 3633, 3604, 3649, 3585, 3657, 3650, 3588, 3657, 3604, 3588, 3609, 3629, 3639, 3656, 3609],
        [3652, 3617, 3656, 3629, 3618, 3634, 3585, 3648, 3619, 3637, 3618, 3609, 3619, 3641, 3657, 3648, 3607, 3588, 3650, 3609, 3650, 3621, 3618, 3637, 3651, 3627, 3617, 3656]]"

definition merged_cfg_Programmer :: config where
  "merged_cfg_Programmer =
    \<lparr>rule_weights = Some DEFAULT_rule_weights,
     training_indicators = Some DEFAULT_training_indicators,
     activity_weights = Some Programmer_activity_weights,
     max_activity_bonus = Some (6 / 5),
     global_knockout = Some DEFAULT_global_knockout,
     global_knockout_weights = Some DEFAULT_global_knockout_weights,
     global_knockout_cap = Some DEFAULT_global_knockout_cap,
     global_mitigation = Some DEFAULT_global_mitigation,
     must_have_skills = Programmer_must_have_skills,
     nice_to_have_skills = Some Programmer_nice_to_have_skills,
     min_years_experience = 0,
     min_education_level = thai_bachelor,
     knockout_phrases = Some Programmer_knockout_phrases,
     age_range = Some (21, 35),
     text_fields = [''resume_text'', ''cover_letter_text'', ''skills'', ''activities'']\<rparr>"

section \<open>Predicates of the statements\<close>

text \<open>
  A string is collapsed when its only whitespace is single spaces between other code
  points or at its ends.
\<close>

fun collapsed :: "str \<Rightarrow> bool" where
  "collapsed [] = True"
| "collapsed [c] = (is_space c \<longrightarrow> c = 32)"
| "collapsed (c # d # cs) = ((is_space c \<longrightarrow> c = 32 \<and> \<not> is_space d) \<and> collapsed (d # cs))"

text \<open>
  What the idempotence of \<open>normalize_text\<close> needs of \<open>str.lower\<close>: whitespace has no
  case, and the lower case of any other code point is made of code points that are not
  whitespace and are their own lower case. CPython's tables satisfy it.
\<close>

definition lower_ok :: "py_runtime \<Rightarrow> bool" where
  "lower_ok rt \<longleftrightarrow>
     (\<forall>c. (is_space c \<longrightarrow> cp_lower rt c = [c]) \<and>
          (\<not> is_space c \<longrightarrow> (\<forall>d \<in> set (cp_lower rt c). \<not> is_space d \<and> cp_lower rt d = [d])))"

text \<open>
  The configured global knockout phrases in the order of the scan, each with its tier.
\<close>

definition gk_entries :: "(string \<times> str list) list \<Rightarrow> (string \<times> str) list" where
  "gk_entries gk =
     concat (map (\<lambda>level. map (\<lambda>phrase. (level, phrase)) (dict_get gk level []))
       [''hard'', ''soft'', ''review''])"

section \<open>Concrete texts and applicants\<close>

text \<open>
  Thai phrases of the default rules (in order: "do not like working in a team", the
  vocational certificate, "cheat", "corruption", "not good with numbers", "but",
  "determined to practise", "improving"), text blobs built from them, and a few rows
  of the department "Programmer". \<open>row_8\<close> is the end-to-end example of the
  specification; \<open>row_inf\<close> is a row whose age cell holds the float \<open>inf\<close>.
\<close>

definition thai_no_teamwork :: str where
  "thai_no_teamwork = [3652, 3617, 3656, 3594, 3629, 3610, 3607, 3635, 3591, 3634, 3609, 3648, 3611, 3655, 3609, 3607, 3637, 3617]"

definition thai_vocational :: str where
  "thai_vocational = [3611, 3623, 3594]"

definition thai_cheat :: str where
  "thai_cheat = [3650, 3585, 3591]"

definition thai_corrupt :: str where
  "thai_corrupt = [3607, 3640, 3592, 3619, 3636, 3605]"

definition thai_bad_numbers :: str where
  "thai_bad_numbers = [3652, 3617, 3656, 3606, 3609, 3633, 3604, 3605, 3633, 3623, 3648, 3621, 3586]"

definition thai_but :: str where
  "thai_but = [3649, 3605, 3656]"

definition thai_try_hard :: str where
  "thai_try_hard = [3605, 3633, 3657, 3591, 3651, 3592, 3613, 3638, 3585]"

definition thai_improving :: str where
  "thai_improving = [3585, 3635, 3621, 3633, 3591, 3614, 3633, 3602, 3609, 3634]"

definition blob_two_hard :: str where
  "blob_two_hard = thai_cheat @ [32] @ thai_corrupt"

definition blob_whitelisted :: str where
  "blob_whitelisted = [3648, 3588, 3618] @ thai_bad_numbers @ [32] @ thai_but @ thai_improving"

definition blob_mitigated :: str where
  "blob_mitigated = thai_bad_numbers @ [32] @ thai_but @ thai_try_hard"

definition blob_twice :: str where
  "blob_twice = thai_cheat @ [32] @ thai_cheat"

definition blob_far :: str where
  "blob_far = thai_cheat @ cps '' aaaaaa '' @ thai_cheat @ [32] @ thai_but"

definition row_a :: row where
  "row_a = map_of
     [(''candidate_id'', PStr (cps ''A-001'')),
      (''resume_text'', PStr []),
      (''cover_letter_text'', PStr []),
      (''skills'', PStr []),
      (''activities'', PStr []),
      (''years_experience'', PNum 0),
      (''months_experience'', PNum 0),
      (''education_level'', PStr thai_bachelor),
      (''age'', PNum 24)]"

definition row_b :: row where
  "row_b = row_a(''skills'' \<mapsto> PStr (cps ''python''))"

definition row_e :: row where
  "row_e = map_of
     [(''candidate_id'', PStr (cps ''E-005'')),
      (''resume_text'', PStr thai_no_teamwork),
      (''cover_letter_text'', PStr (cps ''Python workshop'')),
      (''skills'', PStr (cps ''Python, AWS'')),
      (''activities'', PStr (cps ''GitHub'')),
      (''years_experience'', PNum 0),
      (''months_experience'', PNum 0),
      (''education_level'', PStr thai_vocational),
      (''age'', PNum 24)]"

definition row_5 :: row where
  "row_5 = map_of
     [(''candidate_id'', PStr (cps ''P-005'')),
      (''resume_text'', PStr []),
      (''cover_letter_text'', PStr []),
      (''skills'', PStr (cps ''python,sql,debugging,agile,php'')),
      (''activities'', PStr []),
      (''years_experience'', PNum 2),
      (''months_experience'', PNum 0),
      (''education_level'', PStr thai_bachelor),
      (''age'', PNum 24)]"

definition row_6 :: row where
  "row_6 = row_5(''skills'' \<mapsto> PStr (cps ''python,sql,debugging,agile,php,javascript''))"

definition row_8 :: row where
  "row_8 = row_6(''activities'' \<mapsto> PStr (cps ''github project hackathon''))"

definition row_d :: row where
  "row_d = row_6(''activities'' \<mapsto> PStr (cps ''GitHub workshop''))"

definition row_inf :: row where
  "row_inf = row_a(''age'' \<mapsto> PInf)"

definition blob_e :: str where
  "blob_e = thai_no_teamwork @ cps '' python workshop python, aws github''"

section \<open>Whitespace, stripping and the two cleaners\<close>

lemma is_space_32: "is_space 32" by (simp add: is_space_def)

lemma collapse_ws_hd: "collapse_ws (c # cs) \<noteq> [] \<and> (is_space (hd (collapse_ws (c # cs))) \<longleftrightarrow> is_space c)"
  by (induction cs arbitrary: c) (auto simp: is_space_32)

lemma collapsed_collapse_ws: "collapsed (collapse_ws s)"
proof (induction s rule: collapse_ws.induct)
  case (3 c d cs)
  obtain e es where e: "collapse_ws (d # cs) = e # es"
    using collapse_ws_hd[of d cs] by (cases "collapse_ws (d # cs)") auto
  have "is_space e \<longleftrightarrow> is_space d" using collapse_ws_hd[of d cs] e by simp
  with 3 e show ?case by (auto simp: is_space_32)
qed (auto simp: is_space_32)

lemma collapsed_fix: "collapsed s \<Longrightarrow> collapse_ws s = s"
  by (induction s rule: collapse_ws.induct) auto

lemma collapsed_tl: "collapsed (c # cs) \<Longrightarrow> collapsed cs"
  by (cases cs) auto

lemma collapsed_dropWhile: "collapsed s \<Longrightarrow> collapsed (dropWhile P s)"
  by (induction s) (auto dest: collapsed_tl)

lemma collapsed_append1: "collapsed (xs @ ys) \<Longrightarrow> collapsed xs"
proof (induction xs rule: collapsed.induct)
  case (2 c)
  then show ?case by (cases ys) auto
qed auto

lemma rstrip_prefix: "\<exists>ys. s = rstrip s @ ys"
proof -
  have "rev s = takeWhile is_space (rev s) @ dropWhile is_space (rev s)" by simp
  then have "s = rev (dropWhile is_space (rev s)) @ rev (takeWhile is_space (rev s))"
    by (metis rev_append rev_rev_ident)
  then show ?thesis unfolding rstrip_def by blast
qed

lemma collapsed_strip: "collapsed s \<Longrightarrow> collapsed (py_strip s)"
  unfolding py_strip_def lstrip_def
  using rstrip_prefix[of "dropWhile is_space s"] collapsed_append1 collapsed_dropWhile
  by metis

lemma rstrip_idem: "rstrip (rstrip s) = rstrip s"
  unfolding rstrip_def by (simp add: dropWhile_idem)

lemma lstrip_rstrip: "lstrip (rstrip (lstrip s)) = rstrip (lstrip s)"
proof (cases "lstrip s")
  case Nil
  then show ?thesis by (simp add: rstrip_def lstrip_def[of "[]"])
next
  case (Cons c cs)
  then have nc: "\<not> is_space c" unfolding lstrip_def by (metis hd_dropWhile list.sel(1) list.distinct(1))
  have "rstrip (c # cs) \<noteq> []" using nc unfolding rstrip_def
    by (auto simp: dropWhile_append)
  moreover obtain ys where "c # cs = rstrip (c # cs) @ ys" using rstrip_prefix by blast
  ultimately have "hd (rstrip (c # cs)) = c" by (metis hd_append2 list.sel(1))
  with \<open>rstrip (c # cs) \<noteq> []\<close> nc have "lstrip (rstrip (c # cs)) = rstrip (c # cs)"
    unfolding lstrip_def by (cases "rstrip (c # cs)") auto
  with Cons show ?thesis by simp
qed

lemma py_strip_idem: "py_strip (py_strip s) = py_strip s"
  unfolding py_strip_def by (simp add: lstrip_rstrip rstrip_idem)

lemma set_rstrip: "set (rstrip s) \<subseteq> set s"
  unfolding rstrip_def using set_dropWhileD by fastforce

lemma set_py_strip: "set (py_strip s) \<subseteq> set s"
  unfolding py_strip_def lstrip_def using set_rstrip set_dropWhileD by fastforce

lemma set_collapse_ws: "set (collapse_ws s) \<subseteq> insert 32 (set s)"
  by (induction s rule: collapse_ws.induct) auto

lemma py_lower_fix: "\<forall>c \<in> set s. cp_lower rt c = [c] \<Longrightarrow> py_lower rt s = s"
  unfolding py_lower_def by (induction s) auto

lemma lower_ok_fixed: "lower_ok rt \<Longrightarrow> d \<in> set (py_lower rt s) \<Longrightarrow> cp_lower rt d = [d]"
  unfolding py_lower_def lower_ok_def by auto

lemma normalize_str_idem:
  assumes "lower_ok rt"
  shows "normalize_str rt (normalize_str rt s) = normalize_str rt s"
proof -
  let ?t = "normalize_str rt s"
  have fixed: "\<forall>d \<in> set ?t. cp_lower rt d = [d]"
  proof
    fix d assume "d \<in> set ?t"
    then have "d \<in> insert 32 (set (py_lower rt s))"
      unfolding normalize_str_def using set_py_strip set_collapse_ws by blast
    moreover have "cp_lower rt 32 = [32]" using assms is_space_32 unfolding lower_ok_def by blast
    ultimately show "cp_lower rt d = [d]" using lower_ok_fixed[OF assms] by auto
  qed
  have c: "collapsed ?t" unfolding normalize_str_def by (simp add: collapsed_strip collapsed_collapse_ws)
  have "normalize_str rt ?t = py_strip (collapse_ws ?t)"
    unfolding normalize_str_def[of rt ?t] by (simp add: py_lower_fix[OF fixed])
  also have "\<dots> = py_strip ?t" by (simp add: collapsed_fix[OF c])
  also have "\<dots> = ?t" unfolding normalize_str_def by (simp add: py_strip_idem)
  finally show ?thesis .
qed


lemma set_replace_cp: "set (replace_cp ch r s) \<subseteq> (set s - {ch}) \<union> set r"
  unfolding replace_cp_def by (induction s) auto

lemma replace_cp_absent: "ch \<notin> set s \<Longrightarrow> replace_cp ch r s = s"
  unfolding replace_cp_def by (induction s) auto

lemma clean_email_PStr: "clean_email (PStr s) = clean_str s"
  by (simp add: clean_email_def)

lemma foldl_replace_set:
  "set (foldl (\<lambda>s ch. replace_cp ch r s) s chs) \<subseteq> (set s - set chs) \<union> set r"
proof (induction chs arbitrary: s)
  case (Cons ch chs)
  show ?case using Cons[of "replace_cp ch r s"] set_replace_cp[of ch r s] by auto
qed simp

lemma foldl_replace_absent:
  "set s \<inter> set chs = {} \<Longrightarrow> foldl (\<lambda>s ch. replace_cp ch r s) s chs = s"
  by (induction chs arbitrary: s) (auto simp: replace_cp_absent)

lemma clean_str_clean: "set (clean_str s) \<inter> (set INVISIBLE \<union> set WIDE_SPACES) = {}"
proof -
  let ?s1 = "foldl (\<lambda>s ch. replace_cp ch [] s) s INVISIBLE"
  let ?s2 = "foldl (\<lambda>s ch. replace_cp ch [32] s) ?s1 WIDE_SPACES"
  have 1: "set ?s1 \<subseteq> set s - set INVISIBLE" using foldl_replace_set[of "[]" s INVISIBLE] by simp
  have 2: "set ?s2 \<subseteq> (set ?s1 - set WIDE_SPACES) \<union> {32}" using foldl_replace_set[of "[32]" ?s1 WIDE_SPACES] by simp
  have 3: "set (clean_str s) \<subseteq> set ?s2" unfolding clean_str_def by (rule set_py_strip)
  have 4: "32 \<notin> set INVISIBLE \<union> set WIDE_SPACES" by (simp add: INVISIBLE_def WIDE_SPACES_def)
  show ?thesis using 1 2 3 4 by blast
qed

lemma clean_str_idem: "clean_str (clean_str s) = clean_str s"
proof -
  have a: "set (clean_str s) \<inter> set INVISIBLE = {}" and b: "set (clean_str s) \<inter> set WIDE_SPACES = {}"
    using clean_str_clean[of s] by blast+
  have "clean_str (clean_str s) = py_strip (clean_str s)"
    unfolding clean_str_def[of "clean_str s"]
    by (simp add: foldl_replace_absent[OF a] foldl_replace_absent[OF b])
  also have "\<dots> = clean_str s" unfolding clean_str_def by (simp add: py_strip_idem)
  finally show ?thesis .
qed

lemma py_strip_Nil: "py_strip [] = []"
  by (simp add: py_strip_def lstrip_def rstrip_def)

lemma clean_email_idem: "clean_email (PStr (clean_email v)) = clean_email v"
proof (cases v)
  case (PStr s)
  then show ?thesis by (simp add: clean_email_PStr clean_str_idem)
qed (simp_all add: clean_email_def clean_str_def py_strip_Nil INVISIBLE_def WIDE_SPACES_def replace_cp_def)

lemma normalize_str_Nil: "normalize_str rt [] = []"
  by (simp add: normalize_str_def py_lower_def py_strip_Nil)

lemma lower_ok_latin_rt: "lower_ok latin_rt"
  unfolding lower_ok_def latin_rt_def by (auto simp: ascii_upper_def is_space_def)

lemma normalize_latin_example:
  "normalize_text latin_rt (PStr (cps ''  Hello   WORLD '')) = cps ''hello world''"
  by (simp add: normalize_text_def normalize_str_def py_lower_def latin_rt_def cps_def
      ascii_upper_def py_strip_def lstrip_def rstrip_def is_space_def)

lemma clean_email_example:
  "clean_email (PStr ([32, 8203, 160] @ cps ''A b@x.org'' @ [12288, 10])) = cps ''A b@x.org''"
  by (simp add: clean_email_def clean_str_def INVISIBLE_def WIDE_SPACES_def replace_cp_def cps_def
      py_strip_def lstrip_def rstrip_def is_space_def)

section \<open>Loops as sums\<close>

lemma gk_add_foldl:
  "foldl (\<lambda>acc x. gk_add acc (f x)) acc xs =
     gk_add acc (sum_list (map (\<lambda>x. fst (f x)) xs), concat (map (\<lambda>x. snd (f x)) xs))"
  by (induction xs arbitrary: acc) (auto simp: gk_add_def)

lemma gk_scan_entries:
  "gk_scan rt blob wlist mterms factor ctx weights gk =
     (sum_list (map (\<lambda>(level, phrase). fst (gk_phrase rt blob wlist mterms factor ctx weights level phrase))
        (gk_entries gk)),
      concat (map (\<lambda>(level, phrase). snd (gk_phrase rt blob wlist mterms factor ctx weights level phrase))
        (gk_entries gk)))"
  unfolding gk_scan_def gk_entries_def
  by (simp add: gk_add_foldl) (simp add: gk_add_def o_def)

lemma then_rule_foldl:
  "foldl then_rule st rs = (fst st + sum_list (map fst rs), snd st @ concat (map snd rs))"
  by (induction rs arbitrary: st) (auto simp: then_rule_def)

lemma for_each_eq:
  "for_each body xs = (sum_list (map (\<lambda>x. fst (body x)) xs), concat (map (\<lambda>x. snd (body x)) xs))"
proof -
  have "foldl (\<lambda>st x. then_rule st (body x)) st xs =
        (fst st + sum_list (map (\<lambda>x. fst (body x)) xs), snd st @ concat (map (\<lambda>x. snd (body x)) xs))" for st
    by (induction xs arbitrary: st) (auto simp: then_rule_def)
  then show ?thesis by (simp add: for_each_def)
qed

lemma rule_score_Inl: "age_rule rt r cfg = Inl e \<Longrightarrow> rule_score rt r cfg = Inl e"
  by (simp add: rule_score_def)

lemma rule_score_Inr:
  "age_rule rt r cfg = Inr a \<Longrightarrow>
   rule_score rt r cfg =
     Inr (fst (exp_rule rt r cfg) + fst (edu_rule rt r cfg) + fst (must_rule rt r cfg) +
          fst (gk_rule rt r cfg) + fst (dept_knockout_rule rt r cfg) + fst (training_rule rt r cfg) +
          fst (nice_rule rt r cfg) + fst (low_exp_rule rt r cfg) + fst a +
          fst (activity_rule rt r cfg),
          snd (exp_rule rt r cfg) @ snd (edu_rule rt r cfg) @ snd (must_rule rt r cfg) @
          snd (gk_rule rt r cfg) @ snd (dept_knockout_rule rt r cfg) @ snd (training_rule rt r cfg) @
          snd (nice_rule rt r cfg) @ snd (low_exp_rule rt r cfg) @ snd a @
          snd (activity_rule rt r cfg))"
  unfolding rule_score_def then_rule_foldl by simp

lemma rule_score_returns:
  assumes "rule_score rt r cfg = Inr (sc, rs)"
  obtains a where "age_rule rt r cfg = Inr a"
    and "sc = fst (exp_rule rt r cfg) + fst (edu_rule rt r cfg) + fst (must_rule rt r cfg) +
          fst (gk_rule rt r cfg) + fst (dept_knockout_rule rt r cfg) + fst (training_rule rt r cfg) +
          fst (nice_rule rt r cfg) + fst (low_exp_rule rt r cfg) + fst a +
          fst (activity_rule rt r cfg)"
    and "rs = snd (exp_rule rt r cfg) @ snd (edu_rule rt r cfg) @ snd (must_rule rt r cfg) @
          snd (gk_rule rt r cfg) @ snd (dept_knockout_rule rt r cfg) @ snd (training_rule rt r cfg) @
          snd (nice_rule rt r cfg) @ snd (low_exp_rule rt r cfg) @ snd a @
          snd (activity_rule rt r cfg)"
proof (cases "age_rule rt r cfg")
  case (Inl e)
  then show ?thesis using assms rule_score_Inl[OF Inl] by simp
next
  case (Inr a)
  then show ?thesis using assms rule_score_Inr[OF Inr] that[of a] by simp
qed

lemma age_rule_raises:
  "age_rule rt r cfg = Inl e \<longleftrightarrow>
     e = OverflowError \<and> to_num rt (row_get r ''age'' (PNum (- 1))) = FPosInf"
  by (cases "to_num rt (row_get r ''age'' (PNum (- 1)))")
    (auto simp: age_rule_def Let_def py_int_def fge_def fle_def)

lemma age_rule_returns:
  "to_num rt (row_get r ''age'' (PNum (- 1))) \<noteq> FPosInf \<Longrightarrow> \<exists>a. age_rule rt r cfg = Inr a"
  by (cases "age_rule rt r cfg") (auto simp: age_rule_raises)

lemma labels_differ: "label_pass \<noteq> label_fail"
  by (simp add: label_pass_def label_fail_def)

lemma sum_list_zero: "(\<And>x. x \<in> set xs \<Longrightarrow> f x = (0::real)) \<Longrightarrow> sum_list (map f xs) = 0"
  by (induction xs) auto

section \<open>Substring search\<close>

lemma starts_with_Nil: "starts_with p [] \<longleftrightarrow> p = []"
  by (auto simp: starts_with_def)

lemma match_at_0: "match_at p s 0 \<longleftrightarrow> starts_with p s"
  by (simp add: match_at_def)

lemma match_at_Suc: "match_at p (c # cs) (Suc k) \<longleftrightarrow> match_at p cs k"
  by (simp add: match_at_def)

lemma match_at_Nil: "match_at p [] k \<longleftrightarrow> k = 0 \<and> p = []"
  by (auto simp: match_at_def starts_with_def)

lemma find_None_iff: "find p s = None \<longleftrightarrow> (\<forall>k. \<not> match_at p s k)"
proof (induction s)
  case Nil
  then show ?case by (auto simp: match_at_Nil)
next
  case (Cons c cs)
  show ?case
  proof
    assume "find p (c # cs) = None"
    then have a: "\<not> starts_with p (c # cs)" and b: "find p cs = None"
      by (auto split: if_splits option.splits)
    show "\<forall>k. \<not> match_at p (c # cs) k"
    proof
      fix k show "\<not> match_at p (c # cs) k"
        using a b Cons by (cases k) (auto simp: match_at_0 match_at_Suc)
    qed
  next
    assume h: "\<forall>k. \<not> match_at p (c # cs) k"
    then have "\<not> starts_with p (c # cs)" using match_at_0 by blast
    moreover have "\<forall>k. \<not> match_at p cs k" using h match_at_Suc by blast
    ultimately show "find p (c # cs) = None" using Cons by simp
  qed
qed

lemma find_Some_least:
  "find p s = Some k \<Longrightarrow> match_at p s k \<and> (\<forall>j<k. \<not> match_at p s j)"
proof (induction s arbitrary: k)
  case Nil
  then show ?case by (auto simp: match_at_Nil split: if_splits)
next
  case (Cons c cs)
  show ?case
  proof (cases "starts_with p (c # cs)")
    case True
    with Cons.prems show ?thesis by (simp add: match_at_0)
  next
    case False
    with Cons.prems obtain i where i: "find p cs = Some i" "k = Suc i"
      by (auto split: option.splits)
    have "match_at p (c # cs) k" using Cons.IH[OF i(1)] i(2) by (simp add: match_at_Suc)
    moreover have "\<not> match_at p (c # cs) j" if "j < k" for j
      using that False Cons.IH[OF i(1)] i(2) by (cases j) (auto simp: match_at_0 match_at_Suc)
    ultimately show ?thesis by blast
  qed
qed

lemma contains_iff: "contains p s \<longleftrightarrow> (\<exists>k. match_at p s k)"
  by (simp add: contains_def find_None_iff)

lemma find_eq_least:
  assumes "match_at p s k" "\<forall>j<k. \<not> match_at p s j"
  shows "find p s = Some k"
proof -
  obtain i where i: "find p s = Some i"
    using assms(1) find_None_iff[of p s] by (cases "find p s") auto
  have "match_at p s i" "\<forall>j<i. \<not> match_at p s j" using find_Some_least[OF i] by auto
  then have "i = k" using assms by (meson linorder_neqE_nat)
  then show ?thesis using i by simp
qed

lemma match_at_contains: "match_at p s k \<Longrightarrow> contains p s"
  using contains_iff by blast

section \<open>The whitelist\<close>

lemma gk_wlist_normal:
  assumes "lower_ok rt" "w \<in> set (gk_wlist rt cfg)"
  shows "normalize_text rt (PStr w) = w"
  using assms by (auto simp: gk_wlist_def normalize_text_def normalize_str_idem)

lemma gk_phrase_whitelisted:
  assumes "list_ex (\<lambda>w. contains (normalize_text rt (PStr w)) blob) wlist"
  shows "gk_phrase rt blob wlist mterms factor ctx weights level phrase =
           (if normalize_text rt (PStr phrase) \<noteq> [] \<and> contains (normalize_text rt (PStr phrase)) blob
            then (0, [Whitelisted (normalize_text rt (PStr phrase))]) else (0, []))"
  using assms by (auto simp: gk_phrase_def Let_def contains_def split: option.splits)

section \<open>The stage of every reason\<close>

lemma stage_exp: "x \<in> set (snd (exp_rule rt r cfg)) \<Longrightarrow> stage x = 0"
  by (auto simp: exp_rule_def Let_def split: if_splits)

lemma stage_edu: "x \<in> set (snd (edu_rule rt r cfg)) \<Longrightarrow> stage x = 1"
  by (auto simp: edu_rule_def split: if_splits)

lemma stage_must: "x \<in> set (snd (must_rule rt r cfg)) \<Longrightarrow> stage x = 2"
  by (auto simp: must_rule_def Let_def split: if_splits)

lemma stage_gk: "x \<in> set (snd (gk_rule rt r cfg)) \<Longrightarrow> stage x = 3"
  by (auto simp: gk_rule_def split: if_splits prod.splits)

lemma stage_dept: "x \<in> set (snd (dept_knockout_rule rt r cfg)) \<Longrightarrow> stage x = 4"
  by (auto simp: dept_knockout_rule_def for_each_eq split: if_splits)

lemma stage_training: "x \<in> set (snd (training_rule rt r cfg)) \<Longrightarrow> stage x = 5"
  by (auto simp: training_rule_def for_each_eq split: if_splits)

lemma stage_nice: "x \<in> set (snd (nice_rule rt r cfg)) \<Longrightarrow> stage x = 6"
  by (auto simp: nice_rule_def Let_def split: if_splits)

lemma stage_low_exp: "x \<in> set (snd (low_exp_rule rt r cfg)) \<Longrightarrow> stage x = 7"
  by (auto simp: low_exp_rule_def for_each_eq split: if_splits)

lemma stage_age: "age_rule rt r cfg = Inr a \<Longrightarrow> x \<in> set (snd a) \<Longrightarrow> stage x = 8"
  by (auto simp: age_rule_def Let_def split: if_splits sum.splits)

lemma stage_activity: "x \<in> set (snd (activity_rule rt r cfg)) \<Longrightarrow> stage x = 9"
  by (auto simp: activity_rule_def split: if_splits prod.splits)

lemma sorted_stage_const: "\<forall>x \<in> set xs. stage x = i \<Longrightarrow> sorted (map stage xs)"
  by (induction xs) auto

lemma sorted_stage_step:
  assumes "\<And>x. x \<in> set xs \<Longrightarrow> stage x = i"
    and "sorted (map stage ys) \<and> (\<forall>y \<in> set ys. j \<le> stage y)"
    and "i < j"
  shows "sorted (map stage (xs @ ys)) \<and> (\<forall>z \<in> set (xs @ ys). i \<le> stage z)"
proof -
  have "sorted (map stage xs)" using assms(1) sorted_stage_const[of xs i] by blast
  moreover have "\<forall>x \<in> set xs. \<forall>y \<in> set ys. stage x \<le> stage y"
    using assms by fastforce
  moreover have "\<forall>z \<in> set (xs @ ys). i \<le> stage z"
    using assms by fastforce
  ultimately show ?thesis using assms(2) by (simp add: sorted_append)
qed

lemma filter_stage_other:
  "(\<And>x. x \<in> set xs \<Longrightarrow> stage x = i) \<Longrightarrow> i \<noteq> k \<Longrightarrow> filter (\<lambda>x. stage x = k) xs = []"
  by (induction xs) auto

lemma filter_stage_same:
  "(\<And>x. x \<in> set xs \<Longrightarrow> stage x = i) \<Longrightarrow> filter (\<lambda>x. stage x = i) xs = xs"
  by (induction xs) auto

lemma length_exp: "length (snd (exp_rule rt r cfg)) = 1"
  by (simp add: exp_rule_def Let_def)

lemma length_must: "length (snd (must_rule rt r cfg)) = 1"
  by (simp add: must_rule_def Let_def)

lemma length_age: "age_rule rt r cfg = Inr a \<Longrightarrow> length (snd a) = 1"
  by (auto simp: age_rule_def Let_def split: if_splits sum.splits)

lemma rule_score_three_reasons:
  assumes "rule_score rt r cfg = Inr (sc, rs)"
  shows "3 \<le> length rs \<and>
   filter (\<lambda>x. stage x = 0) rs = snd (exp_rule rt r cfg) \<and>
   length (snd (exp_rule rt r cfg)) = 1 \<and>
   filter (\<lambda>x. stage x = 2) rs = snd (must_rule rt r cfg) \<and>
   length (snd (must_rule rt r cfg)) = 1 \<and>
   length (filter (\<lambda>x. stage x = 8) rs) = 1"
proof -
  obtain a where age: "age_rule rt r cfg = Inr a"
    and rs: "rs = snd (exp_rule rt r cfg) @ snd (edu_rule rt r cfg) @ snd (must_rule rt r cfg) @
          snd (gk_rule rt r cfg) @ snd (dept_knockout_rule rt r cfg) @ snd (training_rule rt r cfg) @
          snd (nice_rule rt r cfg) @ snd (low_exp_rule rt r cfg) @ snd a @
          snd (activity_rule rt r cfg)"
    using rule_score_returns[OF assms] by blast
  note sa = stage_age[OF age]
  have l: "3 \<le> length rs"
    unfolding rs using length_exp[of rt r cfg] length_must[of rt r cfg] length_age[OF age]
    by simp
  have f0: "filter (\<lambda>x. stage x = 0) rs = snd (exp_rule rt r cfg)"
    unfolding rs filter_append
    by (simp add: filter_stage_same[OF stage_exp] filter_stage_other[OF stage_edu]
        filter_stage_other[OF stage_must] filter_stage_other[OF stage_gk]
        filter_stage_other[OF stage_dept] filter_stage_other[OF stage_training]
        filter_stage_other[OF stage_nice] filter_stage_other[OF stage_low_exp]
        filter_stage_other[OF sa] filter_stage_other[OF stage_activity])
  have f2: "filter (\<lambda>x. stage x = 2) rs = snd (must_rule rt r cfg)"
    unfolding rs filter_append
    by (simp add: filter_stage_same[OF stage_must] filter_stage_other[OF stage_edu]
        filter_stage_other[OF stage_exp] filter_stage_other[OF stage_gk]
        filter_stage_other[OF stage_dept] filter_stage_other[OF stage_training]
        filter_stage_other[OF stage_nice] filter_stage_other[OF stage_low_exp]
        filter_stage_other[OF sa] filter_stage_other[OF stage_activity])
  have f8: "filter (\<lambda>x. stage x = 8) rs = snd a"
    unfolding rs filter_append
    by (simp add: filter_stage_same[OF sa] filter_stage_other[OF stage_edu]
        filter_stage_other[OF stage_must] filter_stage_other[OF stage_gk]
        filter_stage_other[OF stage_dept] filter_stage_other[OF stage_training]
        filter_stage_other[OF stage_nice] filter_stage_other[OF stage_low_exp]
        filter_stage_other[OF stage_exp] filter_stage_other[OF stage_activity])
  show ?thesis using l f0 f2 f8 length_exp length_must length_age[OF age] by simp
qed

lemma row_get_other: "k \<noteq> k' \<Longrightarrow> row_get (r(k' \<mapsto> v)) k d = row_get r k d"
  by (simp add: row_get_def)

section \<open>The training-context patterns\<close>

lemma ps1_search_needs:
  "ps1_search rt inds s blob \<Longrightarrow> contains s blob \<and> list_ex (\<lambda>ind. contains ind blob) (ind_alt inds)"
  unfolding ps1_search_def list_ex_iff
  by (auto split: if_splits dest: match_at_contains)

lemma ps2_search_needs:
  "ps2_search rt inds s blob \<Longrightarrow> contains s blob \<and> list_ex (\<lambda>ind. contains ind blob) (ind_alt inds)"
  unfolding ps2_search_def list_ex_iff
  by (auto split: if_splits dest: match_at_contains)

lemma ps2_search_intro:
  assumes "match_at s blob i" "word_boundary rt blob i" "word_boundary rt blob (i + length s)"
    and "g \<le> 40" "dots blob (i + length s) g"
    and "ind \<in> set (ind_alt inds)" "match_at ind blob (i + length s + g)"
  shows "ps2_search rt inds s blob"
proof -
  have i: "i \<in> set [0..<Suc (length blob)]" using assms(1) by (auto simp: match_at_def)
  have g: "g \<in> set [0..<41]" using assms(4) by auto
  have inner: "\<exists>ind \<in> set (ind_alt inds). match_at ind blob (i + length s + g)"
    using assms(6,7) by blast
  have gaps: "\<exists>g \<in> set [0..<41]. if dots blob (i + length s) g
                then \<exists>ind \<in> set (ind_alt inds). match_at ind blob (i + length s + g)
                else False"
    using g assms(5) inner by (intro bexI[of _ g]) simp_all
  show ?thesis
    unfolding ps2_search_def list_ex_iff
    using i assms(1-3) gaps by (intro bexI[of _ i]) simp_all
qed

lemma training_none:
  assumes "\<not> list_ex (\<lambda>ind. contains ind (blob_of rt r cfg)) (ind_alt (indicators_of cfg))"
  shows "training_rule rt r cfg = (0, [])"
proof -
  have "\<not> (ps1_search rt (indicators_of cfg) s (blob_of rt r cfg) \<or>
            ps2_search rt (indicators_of cfg) s (blob_of rt r cfg))" for s
    using assms ps1_search_needs ps2_search_needs by blast
  then show ?thesis
    by (simp add: training_rule_def for_each_eq sum_list_zero)
qed

section \<open>Evaluation on the policy of the department Programmer\<close>

lemma is_space_tree:
  "is_space c =
     (if c \<le> 32 then (9 \<le> c \<and> c \<le> 13) \<or> 28 \<le> c
      else if c \<le> 160 then c = 133 \<or> c = 160
      else if c < 5760 then False
      else c = 5760 \<or> (8192 \<le> c \<and> c \<le> 8202) \<or> c = 8232 \<or> c = 8233 \<or> c = 8239 \<or>
           c = 8287 \<or> c = 12288)"
  unfolding is_space_def by auto

lemma starts_with_simps:
  "starts_with [] s = True"
  "starts_with (a # p) [] = False"
  "starts_with (a # p) (b # s) = (if a = b then starts_with p s else False)"
  by (auto simp: starts_with_def)

lemma latin_rt_fields:
  "cp_lower latin_rt c = (if ascii_upper c then [c + 32] else [c])"
  "str_title latin_rt = title_from False"
  "is_word latin_rt = latin_word"
  by (simp_all add: latin_rt_def)

lemmas str_eval = cps_def normalize_text_def normalize_str_def py_lower_def py_strip_def lstrip_def
  rstrip_def is_space_tree starts_with_simps contains_def latin_rt_fields ascii_upper_def
  ascii_lower_def latin_word_def py_str_def

lemmas thai_defs = thai_bachelor_def thai_no_teamwork_def thai_vocational_def thai_cheat_def
  thai_corrupt_def thai_bad_numbers_def thai_but_def thai_try_hard_def thai_improving_def

lemma cfgP_fields:
  "rule_weights merged_cfg_Programmer = Some DEFAULT_rule_weights"
  "training_indicators merged_cfg_Programmer = Some DEFAULT_training_indicators"
  "activity_weights merged_cfg_Programmer = Some Programmer_activity_weights"
  "max_activity_bonus merged_cfg_Programmer = Some (6 / 5)"
  "global_knockout merged_cfg_Programmer = Some DEFAULT_global_knockout"
  "global_knockout_weights merged_cfg_Programmer = Some DEFAULT_global_knockout_weights"
  "global_knockout_cap merged_cfg_Programmer = Some DEFAULT_global_knockout_cap"
  "global_mitigation merged_cfg_Programmer = Some DEFAULT_global_mitigation"
  "must_have_skills merged_cfg_Programmer = Programmer_must_have_skills"
  "nice_to_have_skills merged_cfg_Programmer = Some Programmer_nice_to_have_skills"
  "min_years_experience merged_cfg_Programmer = 0"
  "min_education_level merged_cfg_Programmer = thai_bachelor"
  "knockout_phrases merged_cfg_Programmer = Some Programmer_knockout_phrases"
  "age_range merged_cfg_Programmer = Some (21, 35)"
  "text_fields merged_cfg_Programmer = [''resume_text'', ''cover_letter_text'', ''skills'', ''activities'']"
  by (simp_all add: merged_cfg_Programmer_def)

lemma weightsP:
  "dict_get (weights_of merged_cfg_Programmer) ''exp_under'' d = - 1"
  "dict_get (weights_of merged_cfg_Programmer) ''exp_meet'' d = 1 / 5"
  "dict_get (weights_of merged_cfg_Programmer) ''edu_under'' d = - 1"
  "dict_get (weights_of merged_cfg_Programmer) ''must_missing'' d = - (3 / 2)"
  "dict_get (weights_of merged_cfg_Programmer) ''must_all'' d = 1 / 2"
  "dict_get (weights_of merged_cfg_Programmer) ''knockout'' d = - 2"
  "dict_get (weights_of merged_cfg_Programmer) ''nice_each'' d = 3 / 10"
  "dict_get (weights_of merged_cfg_Programmer) ''training_ctx'' d = - (1 / 2)"
  "dict_get (weights_of merged_cfg_Programmer) ''low_exp_skill'' d = - (3 / 10)"
  "dict_get (weights_of merged_cfg_Programmer) ''age_out'' d = - 1"
  "dict_get (weights_of merged_cfg_Programmer) ''age_in'' d = 1 / 5"
  by (simp_all add: weights_of_def cfgP_fields or_default_def dict_get_def DEFAULT_rule_weights_def)

lemma default_phrases_normal:
  "list_all (\<lambda>p. normalize_text latin_rt (PStr p) = p)
     (concat (map snd DEFAULT_global_knockout) @ DEFAULT_whitelist_phrases @ DEFAULT_mitigate_terms @
      DEFAULT_training_indicators @ Programmer_knockout_phrases @ map fst Programmer_activity_weights)"
  by (simp add: DEFAULT_global_knockout_def DEFAULT_whitelist_phrases_def DEFAULT_mitigate_terms_def
      DEFAULT_training_indicators_def Programmer_knockout_phrases_def Programmer_activity_weights_def
      str_eval)

lemmas normal_rules = default_phrases_normal[unfolded DEFAULT_global_knockout_def
    DEFAULT_whitelist_phrases_def DEFAULT_mitigate_terms_def DEFAULT_training_indicators_def
    Programmer_knockout_phrases_def Programmer_activity_weights_def cps_def, simplified]

lemma gkP_settings:
  "gk_cap merged_cfg_Programmer = - (5 / 2)"
  "gk_factor merged_cfg_Programmer = 1 / 2"
  "gk_ctx merged_cfg_Programmer = 50"
  "gk_weights merged_cfg_Programmer = DEFAULT_global_knockout_weights"
  "gk_lists merged_cfg_Programmer = DEFAULT_global_knockout"
  "gk_wlist latin_rt merged_cfg_Programmer = DEFAULT_whitelist_phrases"
  "gk_mterms latin_rt merged_cfg_Programmer = DEFAULT_mitigate_terms"
  by (simp_all add: gk_cap_def gk_factor_def gk_ctx_def gk_weights_def gk_lists_def gk_mitigation_def
      gk_wlist_def gk_mterms_def cfgP_fields or_default_def DEFAULT_global_knockout_cap_def
      DEFAULT_global_mitigation_def DEFAULT_whitelist_phrases_def DEFAULT_mitigate_terms_def normal_rules)

lemma gkP_running:
  "gk_running latin_rt blob merged_cfg_Programmer =
     gk_scan latin_rt blob DEFAULT_whitelist_phrases DEFAULT_mitigate_terms (1 / 2) 50
       DEFAULT_global_knockout_weights DEFAULT_global_knockout"
  by (simp add: gk_running_def gkP_settings)

lemmas gk_eval = gk_scan_def gk_add_def gk_phrase_def dict_get_def DEFAULT_global_knockout_def
  DEFAULT_global_knockout_weights_def DEFAULT_whitelist_phrases_def DEFAULT_mitigate_terms_def
  normal_rules contains_def starts_with_simps py_slice_def Let_def

lemma gk_two_hard:
  "gk_running latin_rt blob_two_hard merged_cfg_Programmer =
     (- 4, [Unmitigated thai_cheat ''hard'', Unmitigated thai_corrupt ''hard''])"
  by (simp add: gkP_running gk_eval blob_two_hard_def thai_defs cong: let_weak_cong)

lemma gk_whitelisted:
  "gk_running latin_rt blob_whitelisted merged_cfg_Programmer = (0, [Whitelisted thai_bad_numbers])"
  by (simp add: gkP_running gk_eval blob_whitelisted_def thai_defs cong: let_weak_cong)

lemma gk_phrase_mitigated:
  "gk_phrase latin_rt blob_mitigated DEFAULT_whitelist_phrases DEFAULT_mitigate_terms (1 / 2) 50
     DEFAULT_global_knockout_weights ''soft'' thai_bad_numbers
   = (- (1 / 2), [Mitigated thai_bad_numbers ''soft'' (1 / 2)])"
  by (simp add: gk_eval blob_mitigated_def thai_defs cong: let_weak_cong)

lemma gk_twice:
  "gk_running latin_rt blob_twice merged_cfg_Programmer = (- 2, [Unmitigated thai_cheat ''hard''])"
  by (simp add: gkP_running gk_eval blob_twice_def thai_defs cong: let_weak_cong)

lemma blob_far_occurrences:
  "match_at thai_cheat blob_far 0" "match_at thai_cheat blob_far 11" "match_at thai_but blob_far 15"
  by (simp_all add: match_at_def starts_with_simps blob_far_def thai_defs cps_def)

lemma gk_phrase_far:
  "gk_phrase latin_rt blob_far DEFAULT_whitelist_phrases DEFAULT_mitigate_terms (1 / 2) 5
     DEFAULT_global_knockout_weights ''hard'' thai_cheat
   = (- 2, [Unmitigated thai_cheat ''hard''])"
  by (simp add: gk_eval blob_far_def thai_defs cps_def cong: let_weak_cong)

lemma row_a_cells:
  "row_get row_a ''resume_text'' d = PStr []"
  "row_get row_a ''cover_letter_text'' d = PStr []"
  "row_get row_a ''skills'' d = PStr []"
  "row_get row_a ''activities'' d = PStr []"
  "row_get row_a ''years_experience'' d = PNum 0"
  "row_get row_a ''months_experience'' d = PNum 0"
  "row_get row_a ''education_level'' d = PStr thai_bachelor"
  "row_get row_a ''age'' d = PNum 24"
  by (simp_all add: row_get_def row_a_def)

lemma row_b_cells:
  "row_get row_b ''resume_text'' d = PStr []"
  "row_get row_b ''cover_letter_text'' d = PStr []"
  "row_get row_b ''skills'' d = PStr (cps ''python'')"
  "row_get row_b ''activities'' d = PStr []"
  "row_get row_b ''years_experience'' d = PNum 0"
  "row_get row_b ''months_experience'' d = PNum 0"
  "row_get row_b ''education_level'' d = PStr thai_bachelor"
  "row_get row_b ''age'' d = PNum 24"
  by (simp_all add: row_get_def row_b_def row_a_def)

lemma row_a_blob: "blob_of latin_rt row_a merged_cfg_Programmer = cps ''   ''"
  by (simp add: blob_of_def cfgP_fields row_a_cells str_eval)

lemma row_b_blob: "blob_of latin_rt row_b merged_cfg_Programmer = cps ''  python ''"
  by (simp add: blob_of_def cfgP_fields row_b_cells str_eval)

lemma row_ab_total: "total_years latin_rt row_a = FNum 0" "total_years latin_rt row_b = FNum 0"
  by (simp_all add: total_years_def row_a_cells row_b_cells to_num_def fadd_def fdiv_pos_def)

lemma row_a_skills: "skills_of latin_rt row_a = {}"
  by (simp add: skills_of_def split_skills_def row_a_cells str_eval is_sep_def)

lemma row_b_skills: "skills_of latin_rt row_b = {cps ''python''}"
  by (simp add: skills_of_def split_skills_def row_b_cells str_eval is_sep_def)

lemma edu_levels:
  "encode_education latin_rt (PStr thai_bachelor) = 1"
  "encode_education latin_rt (PStr thai_vocational) = 0"
  by (simp_all add: encode_education_def thai_defs edu_mapping_def dict_get_def str_eval)

lemma row_ab_exp:
  "exp_rule latin_rt row_a merged_cfg_Programmer = (1 / 5, [ExpMeet (FNum 0)])"
  "exp_rule latin_rt row_b merged_cfg_Programmer = (1 / 5, [ExpMeet (FNum 0)])"
  by (simp_all add: exp_rule_def row_ab_total cfgP_fields weightsP flt_def)

lemma row_ab_edu:
  "edu_rule latin_rt row_a merged_cfg_Programmer = (0, [])"
  "edu_rule latin_rt row_b merged_cfg_Programmer = (0, [])"
  by (simp_all add: edu_rule_def row_a_cells row_b_cells cfgP_fields edu_levels)

lemma skill_names_differ:
  "cps ''python'' \<noteq> cps ''php''" "cps ''python'' \<noteq> cps ''javascript''" "cps ''python'' \<noteq> cps ''sql''"
  "cps ''python'' \<noteq> cps ''debugging''" "cps ''python'' \<noteq> cps ''agile''"
  "cps ''python'' \<noteq> cps ''ux/ui''" "cps ''python'' \<noteq> cps ''cloud''" "cps ''python'' \<noteq> cps ''aws''"
  "cps ''python'' \<noteq> cps ''azure''" "cps ''python'' \<noteq> cps ''cybersecurity''"
  by (simp_all add: cps_def)

lemma row_a_must:
  "must_rule latin_rt row_a merged_cfg_Programmer = (- (3 / 2), [MustMissing Programmer_must_have_skills])"
  by (simp add: must_rule_def row_a_skills cfgP_fields weightsP Programmer_must_have_skills_def)

lemma row_b_must:
  "must_rule latin_rt row_b merged_cfg_Programmer =
     (- (3 / 2), [MustMissing [cps ''php'', cps ''javascript'', cps ''sql'', cps ''debugging'', cps ''agile'']])"
  using skill_names_differ
  by (simp add: must_rule_def row_b_skills cfgP_fields weightsP Programmer_must_have_skills_def)

lemma gk_blank: "gk_running latin_rt (cps ''   '') merged_cfg_Programmer = (0, [])"
  by (simp add: gkP_running gk_eval cps_def cong: let_weak_cong)

lemma gk_python: "gk_running latin_rt (cps ''  python '') merged_cfg_Programmer = (0, [])"
  by (simp add: gkP_running gk_eval cps_def cong: let_weak_cong)

lemma row_ab_gk:
  "gk_rule latin_rt row_a merged_cfg_Programmer = (0, [])"
  "gk_rule latin_rt row_b merged_cfg_Programmer = (0, [])"
  by (simp_all add: gk_rule_def apply_global_knockout_def row_a_blob row_b_blob gk_blank gk_python gkP_settings)

lemma row_ab_dept:
  "dept_knockout_rule latin_rt row_a merged_cfg_Programmer = (0, [])"
  "dept_knockout_rule latin_rt row_b merged_cfg_Programmer = (0, [])"
  by (simp_all add: dept_knockout_rule_def for_each_eq row_a_blob row_b_blob cfgP_fields or_default_def
      Programmer_knockout_phrases_def normal_rules contains_def starts_with_simps cps_def)

lemma indicatorsP: "indicators_of merged_cfg_Programmer = DEFAULT_training_indicators"
  by (simp add: indicators_of_def cfgP_fields or_default_def)

lemma row_ab_training:
  "training_rule latin_rt row_a merged_cfg_Programmer = (0, [])"
  "training_rule latin_rt row_b merged_cfg_Programmer = (0, [])"
  by (rule training_none, simp add: row_a_blob row_b_blob indicatorsP ind_alt_def
        DEFAULT_training_indicators_def contains_def starts_with_simps cps_def)+

lemma row_ab_nice:
  "nice_rule latin_rt row_a merged_cfg_Programmer = (0, [])"
  "nice_rule latin_rt row_b merged_cfg_Programmer = (0, [])"
  using skill_names_differ
  by (simp_all add: nice_rule_def row_a_skills row_b_skills cfgP_fields or_default_def
      Programmer_nice_to_have_skills_def)

lemma low_expP: "low_exp merged_cfg_Programmer = 1 / 2"
  by (simp add: low_exp_def cfgP_fields)

lemma row_a_low_exp: "low_exp_rule latin_rt row_a merged_cfg_Programmer = (0, [])"
  by (simp add: low_exp_rule_def for_each_eq row_a_skills sum_list_zero)

lemma row_b_low_exp:
  "low_exp_rule latin_rt row_b merged_cfg_Programmer = (- (3 / 10), [LowExpSkill (cps ''python'') (1 / 2)])"
  using skill_names_differ
  by (simp add: low_exp_rule_def for_each_eq row_b_skills row_ab_total low_expP flt_def cfgP_fields
      weightsP Programmer_must_have_skills_def)

lemma row_ab_age:
  "age_rule latin_rt row_a merged_cfg_Programmer = Inr (1 / 5, [AgeIn 24])"
  "age_rule latin_rt row_b merged_cfg_Programmer = Inr (1 / 5, [AgeIn 24])"
  by (simp_all add: age_rule_def row_a_cells row_b_cells to_num_def cfgP_fields or_default_def
      fge_def fle_def py_int_def weightsP)

lemma row_ab_acts: "acts_of latin_rt row_a = []" "acts_of latin_rt row_b = []"
  by (simp_all add: acts_of_def row_a_cells row_b_cells str_eval)

lemma activity_scan_empty:
  "acts_of latin_rt r = [] \<Longrightarrow> activity_scan latin_rt r merged_cfg_Programmer = (0, [])"
  by (simp add: activity_scan_def cfgP_fields or_default_def Programmer_activity_weights_def
      normal_rules contains_def starts_with_simps cps_def)

lemma row_ab_activity:
  "activity_rule latin_rt row_a merged_cfg_Programmer = (0, [])"
  "activity_rule latin_rt row_b merged_cfg_Programmer = (0, [])"
  by (simp_all add: activity_rule_def activity_scan_empty row_ab_acts)

lemma row_a_score:
  "rule_score latin_rt row_a merged_cfg_Programmer =
     Inr (- (11 / 10), [ExpMeet (FNum 0), MustMissing Programmer_must_have_skills, AgeIn 24])"
  by (simp add: rule_score_def then_rule_def row_ab_exp row_ab_edu row_a_must row_ab_gk row_ab_dept
      row_ab_training row_ab_nice row_a_low_exp row_ab_age row_ab_activity)

lemma row_b_score:
  "rule_score latin_rt row_b merged_cfg_Programmer =
     Inr (- (7 / 5),
      [ExpMeet (FNum 0),
       MustMissing [cps ''php'', cps ''javascript'', cps ''sql'', cps ''debugging'', cps ''agile''],
       LowExpSkill (cps ''python'') (1 / 2),
       AgeIn 24])"
  by (simp add: rule_score_def then_rule_def row_ab_exp row_ab_edu row_b_must row_ab_gk row_ab_dept
      row_ab_training row_ab_nice row_b_low_exp row_ab_age row_ab_activity)

lemma row_e_cells:
  "row_get row_e ''resume_text'' d = PStr thai_no_teamwork"
  "row_get row_e ''cover_letter_text'' d = PStr (cps ''Python workshop'')"
  "row_get row_e ''skills'' d = PStr (cps ''Python, AWS'')"
  "row_get row_e ''activities'' d = PStr (cps ''GitHub'')"
  "row_get row_e ''years_experience'' d = PNum 0"
  "row_get row_e ''months_experience'' d = PNum 0"
  "row_get row_e ''education_level'' d = PStr thai_vocational"
  "row_get row_e ''age'' d = PNum 24"
  by (simp_all add: row_get_def row_e_def)

lemma row_e_blob: "blob_of latin_rt row_e merged_cfg_Programmer = blob_e"
  by (simp add: blob_of_def cfgP_fields row_e_cells str_eval blob_e_def thai_defs)

lemma row_e_total: "total_years latin_rt row_e = FNum 0"
  by (simp add: total_years_def row_e_cells to_num_def fadd_def fdiv_pos_def)

lemma row_e_skills: "skills_of latin_rt row_e = {cps ''python'', cps ''aws''}"
  by (simp add: skills_of_def split_skills_def row_e_cells str_eval is_sep_def)

lemma row_e_exp: "exp_rule latin_rt row_e merged_cfg_Programmer = (1 / 5, [ExpMeet (FNum 0)])"
  by (simp add: exp_rule_def row_e_total cfgP_fields weightsP flt_def)

lemma row_e_edu: "edu_rule latin_rt row_e merged_cfg_Programmer = (- 1, [EduUnder thai_bachelor])"
  by (simp add: edu_rule_def row_e_cells cfgP_fields edu_levels weightsP)

lemma row_e_must:
  "must_rule latin_rt row_e merged_cfg_Programmer =
     (- (3 / 2), [MustMissing [cps ''php'', cps ''javascript'', cps ''sql'', cps ''debugging'', cps ''agile'']])"
  by (simp add: must_rule_def row_e_skills cfgP_fields weightsP Programmer_must_have_skills_def cps_def)

lemma gk_blob_e:
  "gk_running latin_rt blob_e merged_cfg_Programmer = (- 1, [Unmitigated thai_no_teamwork ''soft''])"
  by (simp add: gkP_running gk_eval blob_e_def thai_defs cps_def cong: let_weak_cong)

lemma row_e_gk:
  "gk_rule latin_rt row_e merged_cfg_Programmer =
     (- 1, [GlobalKnockout [Unmitigated thai_no_teamwork ''soft'']])"
  by (simp add: gk_rule_def apply_global_knockout_def row_e_blob gk_blob_e gkP_settings)

lemma row_e_dept:
  "dept_knockout_rule latin_rt row_e merged_cfg_Programmer = (- 2, [DeptKnockout thai_no_teamwork])"
  by (simp add: dept_knockout_rule_def for_each_eq row_e_blob cfgP_fields or_default_def weightsP
      Programmer_knockout_phrases_def normal_rules contains_def starts_with_simps blob_e_def
      thai_defs cps_def)

lemma blob_e_value:
  "blob_e = [3652, 3617, 3656, 3594, 3629, 3610, 3607, 3635, 3591, 3634, 3609, 3648, 3611, 3655, 3609, 3607, 3637, 3617,
     32, 112, 121, 116, 104, 111, 110, 32, 119, 111, 114, 107, 115, 104, 111, 112, 32,
     112, 121, 116, 104, 111, 110, 44, 32, 97, 119, 115, 32, 103, 105, 116, 104, 117, 98]"
  by (simp add: blob_e_def thai_defs cps_def)

lemma row_e_python_training:
  "ps2_search latin_rt DEFAULT_training_indicators (cps ''python'') blob_e"
proof (rule ps2_search_intro[where i = 19 and g = 1 and ind = "cps ''workshop''"])
  show "match_at (cps ''python'') blob_e 19"
    by (simp add: match_at_def starts_with_simps blob_e_value cps_def)
  show "word_boundary latin_rt blob_e 19"
    by (simp add: word_boundary_def blob_e_value latin_rt_fields latin_word_def ascii_upper_def
        ascii_lower_def)
  show "word_boundary latin_rt blob_e (19 + length (cps ''python''))"
    by (simp add: word_boundary_def blob_e_value latin_rt_fields latin_word_def ascii_upper_def
        ascii_lower_def cps_def)
  show "(1::nat) \<le> 40" by simp
  show "dots blob_e (19 + length (cps ''python'')) 1"
    by (simp add: dots_def blob_e_value cps_def)
  show "cps ''workshop'' \<in> set (ind_alt DEFAULT_training_indicators)"
    by (simp add: ind_alt_def DEFAULT_training_indicators_def)
  show "match_at (cps ''workshop'') blob_e (19 + length (cps ''python'') + 1)"
    by (simp add: match_at_def starts_with_simps blob_e_value cps_def)
qed

lemma row_e_absent:
  "\<not> contains (cps ''php'') blob_e"
  "\<not> contains (cps ''javascript'') blob_e"
  "\<not> contains (cps ''sql'') blob_e"
  "\<not> contains (cps ''debugging'') blob_e"
  "\<not> contains (cps ''agile'') blob_e"
  by (simp_all add: contains_def blob_e_value cps_def starts_with_simps)

lemma row_e_training:
  "training_rule latin_rt row_e merged_cfg_Programmer = (- (1 / 2), [TrainingContext (cps ''python'')])"
proof -
  have no: "\<not> (ps1_search latin_rt DEFAULT_training_indicators s blob_e \<or>
                ps2_search latin_rt DEFAULT_training_indicators s blob_e)"
    if "\<not> contains s blob_e" for s
    using that ps1_search_needs ps2_search_needs by blast
  show ?thesis
    by (simp add: training_rule_def for_each_eq row_e_blob indicatorsP cfgP_fields weightsP
        Programmer_must_have_skills_def no[OF row_e_absent(1)] no[OF row_e_absent(2)]
        no[OF row_e_absent(3)] no[OF row_e_absent(4)] no[OF row_e_absent(5)] row_e_python_training)
qed

lemma row_e_nice: "nice_rule latin_rt row_e merged_cfg_Programmer = (3 / 10, [NiceToHave [cps ''aws'']])"
  by (simp add: nice_rule_def row_e_skills cfgP_fields or_default_def weightsP
      Programmer_nice_to_have_skills_def cps_def)

lemma row_e_low_exp:
  "low_exp_rule latin_rt row_e merged_cfg_Programmer = (- (3 / 10), [LowExpSkill (cps ''python'') (1 / 2)])"
  by (simp add: low_exp_rule_def for_each_eq row_e_skills row_e_total low_expP flt_def cfgP_fields
      weightsP Programmer_must_have_skills_def cps_def)

lemma row_e_age: "age_rule latin_rt row_e merged_cfg_Programmer = Inr (1 / 5, [AgeIn 24])"
  by (simp add: age_rule_def row_e_cells to_num_def cfgP_fields or_default_def fge_def fle_def
      py_int_def weightsP)

lemma row_e_acts: "acts_of latin_rt row_e = cps ''github''"
  by (simp add: acts_of_def row_e_cells str_eval)

lemma row_e_activity:
  "activity_rule latin_rt row_e merged_cfg_Programmer = (1 / 2, [ActivityBonus [(cps ''github'', 1 / 2)] (1 / 2)])"
  by (simp add: activity_rule_def activity_scan_def is_training_like_activity_def row_e_acts
      cfgP_fields or_default_def indicatorsP max_bonus_of_def Programmer_activity_weights_def
      DEFAULT_training_indicators_def normal_rules contains_def starts_with_simps cps_def)

lemma row_e_score:
  "rule_score latin_rt row_e merged_cfg_Programmer =
     Inr (- (51 / 10),
      [ExpMeet (FNum 0),
       EduUnder thai_bachelor,
       MustMissing [cps ''php'', cps ''javascript'', cps ''sql'', cps ''debugging'', cps ''agile''],
       GlobalKnockout [Unmitigated thai_no_teamwork ''soft''],
       DeptKnockout thai_no_teamwork,
       TrainingContext (cps ''python''),
       NiceToHave [cps ''aws''],
       LowExpSkill (cps ''python'') (1 / 2),
       AgeIn 24,
       ActivityBonus [(cps ''github'', 1 / 2)] (1 / 2)])"
  by (simp add: rule_score_def then_rule_def row_e_exp row_e_edu row_e_must row_e_gk row_e_dept
      row_e_training row_e_nice row_e_low_exp row_e_age row_e_activity)

lemma row_5_cells:
  "row_get row_5 ''resume_text'' d = PStr []"
  "row_get row_5 ''cover_letter_text'' d = PStr []"
  "row_get row_5 ''skills'' d = PStr (cps ''python,sql,debugging,agile,php'')"
  "row_get row_5 ''activities'' d = PStr []"
  "row_get row_5 ''years_experience'' d = PNum 2"
  "row_get row_5 ''months_experience'' d = PNum 0"
  by (simp_all add: row_get_def row_5_def)

lemma row_6_cells:
  "row_get row_6 ''resume_text'' d = PStr []"
  "row_get row_6 ''cover_letter_text'' d = PStr []"
  "row_get row_6 ''skills'' d = PStr (cps ''python,sql,debugging,agile,php,javascript'')"
  "row_get row_6 ''activities'' d = PStr []"
  by (simp_all add: row_get_def row_6_def row_5_def)

lemma row_8_cells:
  "row_get row_8 ''activities'' d = PStr (cps ''github project hackathon'')"
  "row_get row_d ''activities'' d = PStr (cps ''GitHub workshop'')"
  by (simp_all add: row_get_def row_8_def row_d_def)

lemma row_5_blob: "blob_of latin_rt row_5 merged_cfg_Programmer = cps ''  python,sql,debugging,agile,php ''"
  by (simp add: blob_of_def cfgP_fields row_5_cells str_eval)

lemma row_6_blob:
  "blob_of latin_rt row_6 merged_cfg_Programmer = cps ''  python,sql,debugging,agile,php,javascript ''"
  by (simp add: blob_of_def cfgP_fields row_6_cells str_eval)

lemma row_5_total: "total_years latin_rt row_5 = FNum 2"
  by (simp add: total_years_def row_5_cells to_num_def fadd_def fdiv_pos_def)

lemma row_5_skills:
  "skills_of latin_rt row_5 = {cps ''python'', cps ''sql'', cps ''debugging'', cps ''agile'', cps ''php''}"
  by (simp add: skills_of_def split_skills_def row_5_cells str_eval is_sep_def)

lemma row_6_skills:
  "skills_of latin_rt row_6 =
     insert (cps ''javascript'') {cps ''python'', cps ''sql'', cps ''debugging'', cps ''agile'', cps ''php''}"
  by (simp add: skills_of_def split_skills_def row_6_cells str_eval is_sep_def insert_commute)

lemma gk_blob_5:
  "gk_running latin_rt (cps ''  python,sql,debugging,agile,php '') merged_cfg_Programmer = (0, [])"
  by (simp add: gkP_running gk_eval cps_def cong: let_weak_cong)

lemma gk_blob_6:
  "gk_running latin_rt (cps ''  python,sql,debugging,agile,php,javascript '') merged_cfg_Programmer = (0, [])"
  by (simp add: gkP_running gk_eval cps_def cong: let_weak_cong)

lemma row_56_gk:
  "gk_rule latin_rt row_5 merged_cfg_Programmer = (0, [])"
  "gk_rule latin_rt row_6 merged_cfg_Programmer = (0, [])"
  by (simp_all add: gk_rule_def apply_global_knockout_def row_5_blob row_6_blob gk_blob_5 gk_blob_6
      gkP_settings)

lemma row_56_dept:
  "dept_knockout_rule latin_rt row_5 merged_cfg_Programmer = (0, [])"
  "dept_knockout_rule latin_rt row_6 merged_cfg_Programmer = (0, [])"
  by (simp_all add: dept_knockout_rule_def for_each_eq row_5_blob row_6_blob cfgP_fields or_default_def
      Programmer_knockout_phrases_def normal_rules contains_def starts_with_simps cps_def)

lemma row_56_training:
  "training_rule latin_rt row_5 merged_cfg_Programmer = (0, [])"
  "training_rule latin_rt row_6 merged_cfg_Programmer = (0, [])"
  by (rule training_none, simp add: row_5_blob row_6_blob indicatorsP ind_alt_def
        DEFAULT_training_indicators_def contains_def starts_with_simps cps_def)+

lemma row_8_acts: "acts_of latin_rt row_8 = cps ''github project hackathon''"
  by (simp add: acts_of_def row_8_cells str_eval)

lemma row_d_acts: "acts_of latin_rt row_d = cps ''github workshop''"
  by (simp add: acts_of_def row_8_cells str_eval)

lemma row_8_activity_scan:
  "activity_scan latin_rt row_8 merged_cfg_Programmer =
     (17 / 10, [(cps ''project'', 3 / 5), (cps ''hackathon'', 3 / 5), (cps ''github'', 1 / 2)])"
  by (simp add: activity_scan_def row_8_acts cfgP_fields or_default_def Programmer_activity_weights_def
      normal_rules contains_def starts_with_simps cps_def)

lemma row_8_not_training: "\<not> is_training_like_activity latin_rt row_8 merged_cfg_Programmer"
  by (simp add: is_training_like_activity_def row_8_acts indicatorsP DEFAULT_training_indicators_def
      normal_rules contains_def starts_with_simps cps_def)

lemma row_8_activity:
  "activity_rule latin_rt row_8 merged_cfg_Programmer =
     (6 / 5, [ActivityBonus [(cps ''project'', 3 / 5), (cps ''hackathon'', 3 / 5), (cps ''github'', 1 / 2)] (6 / 5)])"
  by (simp add: activity_rule_def row_8_activity_scan row_8_not_training max_bonus_of_def cfgP_fields
      or_default_def)

lemma row_d_activity_scan:
  "activity_scan latin_rt row_d merged_cfg_Programmer = (1 / 2, [(cps ''github'', 1 / 2)])"
  by (simp add: activity_scan_def row_d_acts cfgP_fields or_default_def Programmer_activity_weights_def
      normal_rules contains_def starts_with_simps cps_def)

lemma row_d_training: "is_training_like_activity latin_rt row_d merged_cfg_Programmer"
  by (simp add: is_training_like_activity_def row_d_acts indicatorsP DEFAULT_training_indicators_def
      normal_rules contains_def starts_with_simps cps_def)

lemma row_d_activity:
  "activity_rule latin_rt row_d merged_cfg_Programmer = (0, [ActivityTrainingLike])"
  by (simp add: activity_rule_def row_d_activity_scan row_d_training)

lemma row_56_cells:
  "row_get row_5 ''education_level'' d = PStr thai_bachelor"
  "row_get row_5 ''age'' d = PNum 24"
  "row_get row_6 ''years_experience'' d = PNum 2"
  "row_get row_6 ''months_experience'' d = PNum 0"
  "row_get row_6 ''education_level'' d = PStr thai_bachelor"
  "row_get row_6 ''age'' d = PNum 24"
  by (simp_all add: row_get_def row_6_def row_5_def)

lemma row_6_total: "total_years latin_rt row_6 = FNum 2"
  by (simp add: total_years_def row_56_cells to_num_def fadd_def fdiv_pos_def)

lemma row_56_exp:
  "exp_rule latin_rt row_5 merged_cfg_Programmer = (1 / 5, [ExpMeet (FNum 2)])"
  "exp_rule latin_rt row_6 merged_cfg_Programmer = (1 / 5, [ExpMeet (FNum 2)])"
  by (simp_all add: exp_rule_def row_5_total row_6_total cfgP_fields weightsP flt_def)

lemma row_56_edu:
  "edu_rule latin_rt row_5 merged_cfg_Programmer = (0, [])"
  "edu_rule latin_rt row_6 merged_cfg_Programmer = (0, [])"
  by (simp_all add: edu_rule_def row_56_cells cfgP_fields edu_levels)

lemma row_5_must:
  "must_rule latin_rt row_5 merged_cfg_Programmer = (- (3 / 2), [MustMissing [cps ''javascript'']])"
  by (simp add: must_rule_def row_5_skills cfgP_fields weightsP Programmer_must_have_skills_def cps_def)

lemma row_6_must:
  "must_rule latin_rt row_6 merged_cfg_Programmer = (1 / 2, [MustAll])"
  by (simp add: must_rule_def row_6_skills cfgP_fields weightsP Programmer_must_have_skills_def cps_def)

lemma row_56_nice:
  "nice_rule latin_rt row_5 merged_cfg_Programmer = (0, [])"
  "nice_rule latin_rt row_6 merged_cfg_Programmer = (0, [])"
  by (simp_all add: nice_rule_def row_5_skills row_6_skills cfgP_fields or_default_def
      Programmer_nice_to_have_skills_def cps_def)

lemma row_56_low_exp:
  "low_exp_rule latin_rt row_5 merged_cfg_Programmer = (0, [])"
  "low_exp_rule latin_rt row_6 merged_cfg_Programmer = (0, [])"
  by (simp_all add: low_exp_rule_def for_each_eq row_5_total row_6_total low_expP flt_def sum_list_zero)

lemma row_56_age:
  "age_rule latin_rt row_5 merged_cfg_Programmer = Inr (1 / 5, [AgeIn 24])"
  "age_rule latin_rt row_6 merged_cfg_Programmer = Inr (1 / 5, [AgeIn 24])"
  by (simp_all add: age_rule_def row_56_cells to_num_def cfgP_fields or_default_def
      fge_def fle_def py_int_def weightsP)

lemma row_56_acts: "acts_of latin_rt row_5 = []" "acts_of latin_rt row_6 = []"
  by (simp_all add: acts_of_def row_5_cells row_6_cells str_eval)

lemma row_56_activity:
  "activity_rule latin_rt row_5 merged_cfg_Programmer = (0, [])"
  "activity_rule latin_rt row_6 merged_cfg_Programmer = (0, [])"
  by (simp_all add: activity_rule_def activity_scan_empty row_56_acts)

lemma row_5_score:
  "rule_score latin_rt row_5 merged_cfg_Programmer =
     Inr (- (11 / 10), [ExpMeet (FNum 2), MustMissing [cps ''javascript''], AgeIn 24])"
  by (simp add: rule_score_def then_rule_def row_56_exp row_56_edu row_5_must row_56_gk row_56_dept
      row_56_training row_56_nice row_56_low_exp row_56_age row_56_activity)

lemma row_6_score:
  "rule_score latin_rt row_6 merged_cfg_Programmer =
     Inr (9 / 10, [ExpMeet (FNum 2), MustAll, AgeIn 24])"
  by (simp add: rule_score_def then_rule_def row_56_exp row_56_edu row_6_must row_56_gk row_56_dept
      row_56_training row_56_nice row_56_low_exp row_56_age row_56_activity)

lemma row_inf_age: "to_num latin_rt (row_get row_inf ''age'' (PNum (- 1))) = FPosInf"
  by (simp add: row_inf_def row_get_def to_num_def)

section \<open>The claims\<close>

text \<open>
  Claim C1, as amended. Let a row differ from another only in its skills cell, so that its
  skill set is the other's with one must-have skill added. If the total experience is not
  below \<open>max(0.5, min_years / 2)\<close> (so the low-experience rule is silent), the three rules
  that read the text blob do not score the new row lower, and the weights satisfy
  \<open>must_missing \<le> must_all\<close> and \<open>nice_each \<ge> 0\<close>, then the score of
  \<open>rule_score\<close> does not decrease: when the call returns on the old row it returns on the
  new one, with a score that is not lower (and when it raises on the old row, on an
  infinite age, it raises the same error on the new one). The must-have rule adds
  \<open>must_all\<close> exactly when every must-have skill is present, \<open>must_missing\<close> otherwise.
  Without the condition on experience the claim fails: on the merged policy of
  "Programmer", adding "python" to an applicant with no experience lowers the score from
  -1.1 to -1.4.
\<close>

theorem C1_adding_skill_amended:
  assumes upd: "r' = r(''skills'' \<mapsto> v)"
    and sk: "skills_of rt r' = insert s (skills_of rt r)"
    and "s \<in> set (must_have_skills cfg)"
    and low: "\<not> flt (total_years rt r) (low_exp cfg)"
    and other: "fst (gk_rule rt r cfg) + fst (dept_knockout_rule rt r cfg) + fst (training_rule rt r cfg)
               \<le> fst (gk_rule rt r' cfg) + fst (dept_knockout_rule rt r' cfg) + fst (training_rule rt r' cfg)"
    and wm: "dict_get (weights_of cfg) ''must_missing'' (- (3 / 2)) \<le> dict_get (weights_of cfg) ''must_all'' (1 / 2)"
    and wn: "0 \<le> dict_get (weights_of cfg) ''nice_each'' (3 / 10)"
  shows "(\<forall>sc rs. rule_score rt r cfg = Inr (sc, rs) \<longrightarrow>
            (\<exists>sc' rs'. rule_score rt r' cfg = Inr (sc', rs') \<and> sc \<le> sc')) \<and>
         (\<forall>e. rule_score rt r cfg = Inl e \<longrightarrow> rule_score rt r' cfg = Inl e) \<and>
         fst (must_rule rt r' cfg) =
           (if set (must_have_skills cfg) \<subseteq> skills_of rt r'
            then dict_get (weights_of cfg) ''must_all'' (1 / 2)
            else dict_get (weights_of cfg) ''must_missing'' (- (3 / 2)))"
proof -
  have tot: "total_years rt r' = total_years rt r"
    by (simp add: total_years_def upd row_get_other)
  have e: "exp_rule rt r' cfg = exp_rule rt r cfg" by (simp add: exp_rule_def tot)
  have d: "edu_rule rt r' cfg = edu_rule rt r cfg" by (simp add: edu_rule_def upd row_get_other)
  have a: "age_rule rt r' cfg = age_rule rt r cfg" by (simp add: age_rule_def upd row_get_other)
  have acts: "acts_of rt r' = acts_of rt r" by (simp add: acts_of_def upd row_get_other)
  have tr: "is_training_like_activity rt r' cfg = is_training_like_activity rt r cfg"
    by (simp add: is_training_like_activity_def acts)
  have sc: "activity_scan rt r' cfg = activity_scan rt r cfg"
    by (simp add: activity_scan_def acts)
  have act: "activity_rule rt r' cfg = activity_rule rt r cfg"
    unfolding activity_rule_def tr sc by (rule refl)
  have l0: "fst (low_exp_rule rt r cfg) = 0"
    unfolding low_exp_rule_def for_each_eq using low by (simp add: sum_list_zero)
  have l1: "fst (low_exp_rule rt r' cfg) = 0"
    unfolding low_exp_rule_def for_each_eq using low tot by (simp add: sum_list_zero)
  have must_eq: "fst (must_rule rt x cfg) =
           (if set (must_have_skills cfg) \<subseteq> skills_of rt x
            then dict_get (weights_of cfg) ''must_all'' (1 / 2)
            else dict_get (weights_of cfg) ''must_missing'' (- (3 / 2)))" for x
    by (auto simp: must_rule_def Let_def filter_empty_conv)
  have m: "fst (must_rule rt r cfg) \<le> fst (must_rule rt r' cfg)"
    unfolding must_eq using sk wm by auto
  let ?N = "or_default (nice_to_have_skills cfg) []"
  have len: "length (filter (\<lambda>s. s \<in> skills_of rt r) ?N) \<le> length (filter (\<lambda>s. s \<in> skills_of rt r') ?N)"
  proof -
    have "filter (\<lambda>s. s \<in> skills_of rt r) ?N = filter (\<lambda>s. s \<in> skills_of rt r) (filter (\<lambda>s. s \<in> skills_of rt r') ?N)"
      using sk by (auto intro: filter_cong)
    then show ?thesis by (metis length_filter_le)
  qed
  have n: "fst (nice_rule rt r cfg) \<le> fst (nice_rule rt r' cfg)"
  proof -
    have "dict_get (weights_of cfg) ''nice_each'' (3 / 10) * real (length (filter (\<lambda>s. s \<in> skills_of rt r) ?N))
          \<le> dict_get (weights_of cfg) ''nice_each'' (3 / 10) * real (length (filter (\<lambda>s. s \<in> skills_of rt r') ?N))"
      using len wn by (intro mult_left_mono) auto
    moreover have "fst (nice_rule rt x cfg) =
        dict_get (weights_of cfg) ''nice_each'' (3 / 10) * real (length (filter (\<lambda>s. s \<in> skills_of rt x) ?N))" for x
      by (simp add: nice_rule_def Let_def)
    ultimately show ?thesis by simp
  qed
  have ret: "\<exists>sc' rs'. rule_score rt r' cfg = Inr (sc', rs') \<and> sc \<le> sc'"
    if v: "rule_score rt r cfg = Inr (sc, rs)" for sc rs
  proof -
    obtain x where age: "age_rule rt r cfg = Inr x"
      and sc: "sc = fst (exp_rule rt r cfg) + fst (edu_rule rt r cfg) + fst (must_rule rt r cfg) +
          fst (gk_rule rt r cfg) + fst (dept_knockout_rule rt r cfg) + fst (training_rule rt r cfg) +
          fst (nice_rule rt r cfg) + fst (low_exp_rule rt r cfg) + fst x +
          fst (activity_rule rt r cfg)"
      using rule_score_returns[OF v] by blast
    have age': "age_rule rt r' cfg = Inr x" using age a by simp
    show ?thesis
      unfolding rule_score_Inr[OF age'] sc e d act l0 l1 using m n other by simp
  qed
  have err: "rule_score rt r' cfg = Inl er" if v: "rule_score rt r cfg = Inl er" for er
  proof (cases "age_rule rt r cfg")
    case (Inl e')
    then show ?thesis using v rule_score_Inl[OF Inl] rule_score_Inl[of rt r' cfg e'] a by simp
  next
    case (Inr x)
    then show ?thesis using v rule_score_Inr[OF Inr] by simp
  qed
  show ?thesis using ret err must_eq[of r'] by blast
qed

theorem C1_adding_skill_amended_witness:
  "row_6 = row_5(''skills'' \<mapsto> PStr (cps ''python,sql,debugging,agile,php,javascript'')) \<and>
   skills_of latin_rt row_6 = insert (cps ''javascript'') (skills_of latin_rt row_5) \<and>
   cps ''javascript'' \<in> set (must_have_skills merged_cfg_Programmer) \<and>
   \<not> flt (total_years latin_rt row_5) (low_exp merged_cfg_Programmer) \<and>
   fst (gk_rule latin_rt row_5 merged_cfg_Programmer) + fst (dept_knockout_rule latin_rt row_5 merged_cfg_Programmer)
     + fst (training_rule latin_rt row_5 merged_cfg_Programmer)
   \<le> fst (gk_rule latin_rt row_6 merged_cfg_Programmer) + fst (dept_knockout_rule latin_rt row_6 merged_cfg_Programmer)
     + fst (training_rule latin_rt row_6 merged_cfg_Programmer) \<and>
   dict_get (weights_of merged_cfg_Programmer) ''must_missing'' (- (3 / 2))
     \<le> dict_get (weights_of merged_cfg_Programmer) ''must_all'' (1 / 2) \<and>
   0 \<le> dict_get (weights_of merged_cfg_Programmer) ''nice_each'' (3 / 10) \<and>
   set (must_have_skills merged_cfg_Programmer) \<subseteq> skills_of latin_rt row_6 \<and>
   rule_score latin_rt row_5 merged_cfg_Programmer =
     Inr (- (11 / 10), [ExpMeet (FNum 2), MustMissing [cps ''javascript''], AgeIn 24]) \<and>
   rule_score latin_rt row_6 merged_cfg_Programmer = Inr (9 / 10, [ExpMeet (FNum 2), MustAll, AgeIn 24]) \<and>
   (- (11 / 10) :: real) \<le> 9 / 10 \<and>
   fst (must_rule latin_rt row_6 merged_cfg_Programmer) = 1 / 2"
proof -
  have upd: "row_6 = row_5(''skills'' \<mapsto> PStr (cps ''python,sql,debugging,agile,php,javascript''))"
    by (simp add: row_6_def)
  have sk: "skills_of latin_rt row_6 = insert (cps ''javascript'') (skills_of latin_rt row_5)"
    by (simp add: row_5_skills row_6_skills)
  have mem: "cps ''javascript'' \<in> set (must_have_skills merged_cfg_Programmer)"
    by (simp add: cfgP_fields Programmer_must_have_skills_def)
  have low: "\<not> flt (total_years latin_rt row_5) (low_exp merged_cfg_Programmer)"
    by (simp add: row_5_total low_expP flt_def)
  have other: "fst (gk_rule latin_rt row_5 merged_cfg_Programmer) + fst (dept_knockout_rule latin_rt row_5 merged_cfg_Programmer)
     + fst (training_rule latin_rt row_5 merged_cfg_Programmer)
   \<le> fst (gk_rule latin_rt row_6 merged_cfg_Programmer) + fst (dept_knockout_rule latin_rt row_6 merged_cfg_Programmer)
     + fst (training_rule latin_rt row_6 merged_cfg_Programmer)"
    by (simp add: row_56_gk row_56_dept row_56_training)
  have wm: "dict_get (weights_of merged_cfg_Programmer) ''must_missing'' (- (3 / 2))
            \<le> dict_get (weights_of merged_cfg_Programmer) ''must_all'' (1 / 2)"
    by (simp add: weightsP)
  have wn: "0 \<le> dict_get (weights_of merged_cfg_Programmer) ''nice_each'' (3 / 10)"
    by (simp add: weightsP)
  have all: "set (must_have_skills merged_cfg_Programmer) \<subseteq> skills_of latin_rt row_6"
    by (simp add: cfgP_fields Programmer_must_have_skills_def row_6_skills)
  note T = C1_adding_skill_amended[OF upd sk mem low other wm wn]
  have le: "(- (11 / 10) :: real) \<le> 9 / 10"
    using conjunct1[OF T] row_5_score row_6_score by auto
  have "fst (must_rule latin_rt row_6 merged_cfg_Programmer) =
          dict_get (weights_of merged_cfg_Programmer) ''must_all'' (1 / 2)"
    using conjunct2[OF conjunct2[OF T]] all by simp
  then have m: "fst (must_rule latin_rt row_6 merged_cfg_Programmer) = 1 / 2"
    by (simp add: weightsP)
  from upd sk mem low other wm wn all row_5_score row_6_score le m show ?thesis by (intro conjI)
qed

theorem C1_adding_skill_counterexample:
  "row_b = row_a(''skills'' \<mapsto> PStr (cps ''python'')) \<and>
   skills_of latin_rt row_a = {} \<and>
   skills_of latin_rt row_b = insert (cps ''python'') (skills_of latin_rt row_a) \<and>
   cps ''python'' \<in> set (must_have_skills merged_cfg_Programmer) \<and>
   rule_score latin_rt row_a merged_cfg_Programmer =
     Inr (- (11 / 10), [ExpMeet (FNum 0), MustMissing Programmer_must_have_skills, AgeIn 24]) \<and>
   rule_score latin_rt row_b merged_cfg_Programmer =
     Inr (- (7 / 5),
      [ExpMeet (FNum 0),
       MustMissing [cps ''php'', cps ''javascript'', cps ''sql'', cps ''debugging'', cps ''agile''],
       LowExpSkill (cps ''python'') (1 / 2),
       AgeIn 24]) \<and>
   (- (7 / 5) :: real) < - (11 / 10)"
proof -
  have "row_b = row_a(''skills'' \<mapsto> PStr (cps ''python''))" by (simp add: row_b_def)
  moreover have "skills_of latin_rt row_a = {}" by (rule row_a_skills)
  moreover have "skills_of latin_rt row_b = insert (cps ''python'') (skills_of latin_rt row_a)"
    by (simp add: row_a_skills row_b_skills)
  moreover have "cps ''python'' \<in> set (must_have_skills merged_cfg_Programmer)"
    by (simp add: cfgP_fields Programmer_must_have_skills_def)
  moreover note row_a_score row_b_score
  moreover have "(- (7 / 5) :: real) < - (11 / 10)" by simp
  ultimately show ?thesis by (intro conjI)
qed

text \<open>
  Claim C2. For every blob and configuration, the penalty that \<open>_apply_global_knockout\<close>
  returns is at least the configured cap: it is the larger of the cap and the sum of all
  applied weights, so the cap bounds the total and not each phrase.
\<close>

theorem C2_penalty_at_least_cap:
  "gk_cap cfg \<le> fst (apply_global_knockout rt blob cfg) \<and>
   fst (apply_global_knockout rt blob cfg) = max (gk_cap cfg) (fst (gk_running rt blob cfg))"
  by (auto simp: apply_global_knockout_def split: prod.splits)

theorem C2_penalty_at_least_cap_witness:
  "fst (gk_running latin_rt blob_two_hard merged_cfg_Programmer) = - 4 \<and>
   gk_cap merged_cfg_Programmer = - (5 / 2) \<and>
   fst (apply_global_knockout latin_rt blob_two_hard merged_cfg_Programmer) = - (5 / 2) \<and>
   gk_cap merged_cfg_Programmer \<le> fst (apply_global_knockout latin_rt blob_two_hard merged_cfg_Programmer)"
proof -
  note T = C2_penalty_at_least_cap[of merged_cfg_Programmer latin_rt blob_two_hard]
  have r: "fst (gk_running latin_rt blob_two_hard merged_cfg_Programmer) = - 4"
    by (simp add: gk_two_hard)
  have c: "gk_cap merged_cfg_Programmer = - (5 / 2)" by (simp add: gkP_settings)
  have v: "fst (apply_global_knockout latin_rt blob_two_hard merged_cfg_Programmer) = - (5 / 2)"
    using conjunct2[OF T] by (simp add: r c)
  have le: "gk_cap merged_cfg_Programmer \<le> fst (apply_global_knockout latin_rt blob_two_hard merged_cfg_Programmer)"
    using T by (rule conjunct1)
  from r c v le show ?thesis by (intro conjI)
qed

text \<open>
  Claim C3. When a normalized whitelist phrase occurs in the blob, every configured phrase
  that matches adds zero and is recorded as whitelisted, whatever its tier, weights, factor
  and window; the running penalty is zero and every hit of the trace is a whitelisted one.
  (The source normalizes the whitelist twice; on a runtime with \<open>lower_ok\<close> that is the
  same as once.)
\<close>

theorem C3_whitelist_neutralizes:
  assumes "lower_ok rt"
    and "\<exists>w \<in> set (gk_wlist rt cfg). contains w blob"
  shows "(\<forall>level phrase factor ctx weights mterms.
            gk_phrase rt blob (gk_wlist rt cfg) mterms factor ctx weights level phrase =
              (if normalize_text rt (PStr phrase) \<noteq> [] \<and> contains (normalize_text rt (PStr phrase)) blob
               then (0, [Whitelisted (normalize_text rt (PStr phrase))]) else (0, []))) \<and>
         fst (gk_running rt blob cfg) = 0 \<and>
         (\<forall>h \<in> set (snd (gk_running rt blob cfg)). \<exists>p. h = Whitelisted p \<and> contains p blob)"
proof -
  have wl: "list_ex (\<lambda>w. contains (normalize_text rt (PStr w)) blob) (gk_wlist rt cfg)"
    using assms gk_wlist_normal[OF assms(1)] by (auto simp: list_ex_iff)
  note ph = gk_phrase_whitelisted[OF wl]
  have z: "fst (gk_phrase rt blob (gk_wlist rt cfg) m f c ws l p) = 0" for m f c ws l p
    by (simp add: ph)
  have "fst (gk_running rt blob cfg) = 0"
    unfolding gk_running_def gk_scan_entries by (simp add: z case_prod_unfold)
  moreover have "\<forall>h \<in> set (snd (gk_running rt blob cfg)). \<exists>p. h = Whitelisted p \<and> contains p blob"
    unfolding gk_running_def gk_scan_entries by (auto simp: ph case_prod_unfold split: if_splits)
  ultimately show ?thesis using ph by simp
qed

theorem C3_whitelist_neutralizes_witness:
  "lower_ok latin_rt \<and>
   hd DEFAULT_whitelist_phrases \<in> set (gk_wlist latin_rt merged_cfg_Programmer) \<and>
   contains (hd DEFAULT_whitelist_phrases) blob_whitelisted \<and>
   contains (normalize_text latin_rt (PStr thai_bad_numbers)) blob_whitelisted \<and>
   gk_phrase latin_rt blob_whitelisted (gk_wlist latin_rt merged_cfg_Programmer)
     DEFAULT_mitigate_terms (1 / 2) 50 DEFAULT_global_knockout_weights ''soft'' thai_bad_numbers
     = (0, [Whitelisted thai_bad_numbers]) \<and>
   fst (gk_running latin_rt blob_whitelisted merged_cfg_Programmer) = 0 \<and>
   snd (gk_running latin_rt blob_whitelisted merged_cfg_Programmer) = [Whitelisted thai_bad_numbers]"
proof -
  have w: "hd DEFAULT_whitelist_phrases \<in> set (gk_wlist latin_rt merged_cfg_Programmer)"
    by (simp add: gkP_settings DEFAULT_whitelist_phrases_def)
  have c: "contains (hd DEFAULT_whitelist_phrases) blob_whitelisted"
    by (simp add: DEFAULT_whitelist_phrases_def blob_whitelisted_def thai_defs contains_def starts_with_simps)
  have n: "normalize_text latin_rt (PStr thai_bad_numbers) = thai_bad_numbers"
    by (simp add: thai_defs normal_rules)
  have b: "contains (normalize_text latin_rt (PStr thai_bad_numbers)) blob_whitelisted"
    unfolding n by (simp add: blob_whitelisted_def thai_defs contains_def starts_with_simps)
  have ne: "normalize_text latin_rt (PStr thai_bad_numbers) \<noteq> []"
    unfolding n by (simp add: thai_defs)
  have ex: "\<exists>w \<in> set (gk_wlist latin_rt merged_cfg_Programmer). contains w blob_whitelisted"
    using w c by blast
  note T = C3_whitelist_neutralizes[OF lower_ok_latin_rt ex]
  have p: "gk_phrase latin_rt blob_whitelisted (gk_wlist latin_rt merged_cfg_Programmer)
     DEFAULT_mitigate_terms (1 / 2) 50 DEFAULT_global_knockout_weights ''soft'' thai_bad_numbers
     = (0, [Whitelisted thai_bad_numbers])"
    using conjunct1[OF T] b ne n by simp
  have z: "fst (gk_running latin_rt blob_whitelisted merged_cfg_Programmer) = 0"
    using conjunct1[OF conjunct2[OF T]] .
  have h: "snd (gk_running latin_rt blob_whitelisted merged_cfg_Programmer) = [Whitelisted thai_bad_numbers]"
    by (simp add: gk_whitelisted)
  from lower_ok_latin_rt w c b p z h show ?thesis by (intro conjI)
qed

text \<open>
  Claim C4. The activity block of \<open>rule_score\<close> adds either nothing or the smaller of the
  matched sum and \<open>max_activity_bonus\<close>: a bonus that is applied (and reported in the
  reasons) is at most the cap, and with a cap that is not negative so is what the block
  adds in every case. It adds nothing when the normalized activities text contains a
  training indicator. What it adds is the last summand of the score that \<open>rule_score\<close>
  returns.
\<close>

theorem C4_activity_bonus_capped:
  "(0 \<le> max_bonus_of cfg \<longrightarrow> fst (activity_rule rt r cfg) \<le> max_bonus_of cfg) \<and>
   (is_training_like_activity rt r cfg \<longrightarrow> fst (activity_rule rt r cfg) = 0) \<and>
   (\<forall>hits b. ActivityBonus hits b \<in> set (snd (activity_rule rt r cfg)) \<longrightarrow>
      fst (activity_rule rt r cfg) = b \<and> b \<le> max_bonus_of cfg) \<and>
   (fst (activity_rule rt r cfg) = 0 \<or>
    fst (activity_rule rt r cfg) = min (fst (activity_scan rt r cfg)) (max_bonus_of cfg)) \<and>
   (\<forall>sc rs. rule_score rt r cfg = Inr (sc, rs) \<longrightarrow>
      (\<exists>a. age_rule rt r cfg = Inr a \<and>
         sc = fst (foldl then_rule (0, [])
                [exp_rule rt r cfg, edu_rule rt r cfg, must_rule rt r cfg, gk_rule rt r cfg,
                 dept_knockout_rule rt r cfg, training_rule rt r cfg, nice_rule rt r cfg,
                 low_exp_rule rt r cfg, a]) + fst (activity_rule rt r cfg)))"
proof -
  have "\<exists>a. age_rule rt r cfg = Inr a \<and>
         sc = fst (foldl then_rule (0, [])
                [exp_rule rt r cfg, edu_rule rt r cfg, must_rule rt r cfg, gk_rule rt r cfg,
                 dept_knockout_rule rt r cfg, training_rule rt r cfg, nice_rule rt r cfg,
                 low_exp_rule rt r cfg, a]) + fst (activity_rule rt r cfg)"
    if "rule_score rt r cfg = Inr (sc, rs)" for sc rs
    using rule_score_returns[OF that] unfolding then_rule_foldl by force
  then show ?thesis
    by (auto simp: activity_rule_def split: prod.splits)
qed

theorem C4_activity_bonus_capped_witness:
  "0 \<le> max_bonus_of merged_cfg_Programmer \<and>
   fst (activity_scan latin_rt row_8 merged_cfg_Programmer) = 17 / 10 \<and>
   fst (activity_rule latin_rt row_8 merged_cfg_Programmer) = 6 / 5 \<and>
   fst (activity_rule latin_rt row_8 merged_cfg_Programmer) \<le> max_bonus_of merged_cfg_Programmer \<and>
   is_training_like_activity latin_rt row_d merged_cfg_Programmer \<and>
   fst (activity_scan latin_rt row_d merged_cfg_Programmer) = 1 / 2 \<and>
   fst (activity_rule latin_rt row_d merged_cfg_Programmer) = 0"
proof -
  note T8 = C4_activity_bonus_capped[of merged_cfg_Programmer latin_rt row_8]
  note Td = C4_activity_bonus_capped[of merged_cfg_Programmer latin_rt row_d]
  have m: "0 \<le> max_bonus_of merged_cfg_Programmer"
    by (simp add: max_bonus_of_def cfgP_fields or_default_def)
  have s8: "fst (activity_scan latin_rt row_8 merged_cfg_Programmer) = 17 / 10"
    by (simp add: row_8_activity_scan)
  have a8: "fst (activity_rule latin_rt row_8 merged_cfg_Programmer) = 6 / 5"
    by (simp add: row_8_activity)
  have le: "fst (activity_rule latin_rt row_8 merged_cfg_Programmer) \<le> max_bonus_of merged_cfg_Programmer"
    using conjunct1[OF T8] m by blast
  have sd: "fst (activity_scan latin_rt row_d merged_cfg_Programmer) = 1 / 2"
    by (simp add: row_d_activity_scan)
  have ad: "fst (activity_rule latin_rt row_d merged_cfg_Programmer) = 0"
    using conjunct1[OF conjunct2[OF Td]] row_d_training by blast
  from m s8 a8 le row_d_training sd ad show ?thesis by (intro conjI)
qed

text \<open>
  Claim C5. The final priority is \<open>0.7 * p + 0.3 * sigmoid(s)\<close> with the logistic
  function of the specification, and \<open>bucket_level\<close> answers "pass" exactly when the final
  priority is at least the threshold, equality included (floats are read as reals).
\<close>

theorem C5_blend_and_bucket:
  "final_priority p s = 0.7 * p + 0.3 * sigmoid s \<and>
   (bucket_level (final_priority p s) pass_cut = label_pass \<longleftrightarrow> final_priority p s \<ge> pass_cut) \<and>
   (bucket_level (final_priority p s) pass_cut = label_fail \<longleftrightarrow> final_priority p s < pass_cut) \<and>
   bucket_level pass_cut pass_cut = label_pass"
  using labels_differ by (auto simp: final_priority_def sigmoid_def bucket_level_def)

theorem C5_blend_and_bucket_witness:
  "final_priority (1 / 2) 0 = 1 / 2 \<and>
   bucket_level (final_priority (1 / 2) 0) (1 / 2) = label_pass \<and>
   bucket_level (final_priority (1 / 2) 0) (51 / 100) = label_fail"
proof -
  note T1 = C5_blend_and_bucket[of "1 / 2" 0 "1 / 2"]
  note T2 = C5_blend_and_bucket[of "1 / 2" 0 "51 / 100"]
  have v: "final_priority (1 / 2) 0 = 1 / 2"
    using conjunct1[OF T1] by (simp add: sigmoid_def)
  have p: "bucket_level (final_priority (1 / 2) 0) (1 / 2) = label_pass"
    using conjunct1[OF conjunct2[OF T1]] unfolding v by simp
  have f: "bucket_level (final_priority (1 / 2) 0) (51 / 100) = label_fail"
    using conjunct1[OF conjunct2[OF conjunct2[OF T2]]] unfolding v by simp
  from v p f show ?thesis by (intro conjI)
qed

text \<open>
  Claim C6. With a mitigation factor between 0 and 1, a phrase whose hit is recorded as
  mitigated has a negative tier weight and adds that weight times the factor, which lies
  between the weight and zero; a phrase that is not recorded as mitigated adds its full
  weight or nothing; and a weight that is not negative is never mitigated.
\<close>

theorem C6_mitigation_toward_zero:
  assumes "0 \<le> factor" "factor \<le> 1"
  shows "(snd (gk_phrase rt blob wlist mterms factor ctx weights level phrase)
            = [Mitigated (normalize_text rt (PStr phrase)) level factor] \<longrightarrow>
           dict_get weights level 0 < 0 \<and>
           fst (gk_phrase rt blob wlist mterms factor ctx weights level phrase)
             = dict_get weights level 0 * factor \<and>
           dict_get weights level 0 \<le> fst (gk_phrase rt blob wlist mterms factor ctx weights level phrase) \<and>
           fst (gk_phrase rt blob wlist mterms factor ctx weights level phrase) \<le> 0) \<and>
         (snd (gk_phrase rt blob wlist mterms factor ctx weights level phrase)
            \<noteq> [Mitigated (normalize_text rt (PStr phrase)) level factor] \<longrightarrow>
           fst (gk_phrase rt blob wlist mterms factor ctx weights level phrase) = dict_get weights level 0 \<or>
           fst (gk_phrase rt blob wlist mterms factor ctx weights level phrase) = 0) \<and>
         (0 \<le> dict_get weights level 0 \<longrightarrow>
           snd (gk_phrase rt blob wlist mterms factor ctx weights level phrase)
             \<noteq> [Mitigated (normalize_text rt (PStr phrase)) level factor])"
proof -
  have scale: "w \<le> w * factor \<and> w * factor \<le> 0" if "w < 0" for w :: real
  proof -
    have "w * factor \<le> 0" using that assms(1) by (simp add: mult_nonpos_nonneg)
    moreover have "w * 1 \<le> w * factor" using that assms(2) by (intro mult_left_mono_neg) auto
    ultimately show ?thesis by simp
  qed
  show ?thesis
    using scale[of "dict_get weights level 0"]
    by (auto simp: gk_phrase_def Let_def split: option.splits)
qed

theorem C6_mitigation_toward_zero_witness:
  "(0::real) \<le> 1 / 2 \<and> (1 / 2 :: real) \<le> 1 \<and>
   snd (gk_phrase latin_rt blob_mitigated DEFAULT_whitelist_phrases DEFAULT_mitigate_terms (1 / 2) 50
          DEFAULT_global_knockout_weights ''soft'' thai_bad_numbers)
     = [Mitigated (normalize_text latin_rt (PStr thai_bad_numbers)) ''soft'' (1 / 2)] \<and>
   dict_get DEFAULT_global_knockout_weights ''soft'' 0 = - 1 \<and>
   fst (gk_phrase latin_rt blob_mitigated DEFAULT_whitelist_phrases DEFAULT_mitigate_terms (1 / 2) 50
          DEFAULT_global_knockout_weights ''soft'' thai_bad_numbers) = - 1 * (1 / 2) \<and>
   - 1 \<le> fst (gk_phrase latin_rt blob_mitigated DEFAULT_whitelist_phrases DEFAULT_mitigate_terms (1 / 2) 50
          DEFAULT_global_knockout_weights ''soft'' thai_bad_numbers) \<and>
   fst (gk_phrase latin_rt blob_mitigated DEFAULT_whitelist_phrases DEFAULT_mitigate_terms (1 / 2) 50
          DEFAULT_global_knockout_weights ''soft'' thai_bad_numbers) \<le> 0"
proof -
  have f: "(0::real) \<le> 1 / 2" "(1 / 2 :: real) \<le> 1" by simp_all
  have n: "normalize_text latin_rt (PStr thai_bad_numbers) = thai_bad_numbers"
    by (simp add: thai_defs normal_rules)
  have w: "dict_get DEFAULT_global_knockout_weights ''soft'' 0 = - 1"
    by (simp add: dict_get_def DEFAULT_global_knockout_weights_def)
  have m: "snd (gk_phrase latin_rt blob_mitigated DEFAULT_whitelist_phrases DEFAULT_mitigate_terms (1 / 2) 50
          DEFAULT_global_knockout_weights ''soft'' thai_bad_numbers)
     = [Mitigated (normalize_text latin_rt (PStr thai_bad_numbers)) ''soft'' (1 / 2)]"
    by (simp add: gk_phrase_mitigated n)
  note T = C6_mitigation_toward_zero[OF f, of latin_rt blob_mitigated DEFAULT_whitelist_phrases
        DEFAULT_mitigate_terms 50 DEFAULT_global_knockout_weights "''soft''" thai_bad_numbers]
  have c: "dict_get DEFAULT_global_knockout_weights ''soft'' 0 < 0 \<and>
           fst (gk_phrase latin_rt blob_mitigated DEFAULT_whitelist_phrases DEFAULT_mitigate_terms (1 / 2) 50
                  DEFAULT_global_knockout_weights ''soft'' thai_bad_numbers)
             = dict_get DEFAULT_global_knockout_weights ''soft'' 0 * (1 / 2) \<and>
           dict_get DEFAULT_global_knockout_weights ''soft'' 0
             \<le> fst (gk_phrase latin_rt blob_mitigated DEFAULT_whitelist_phrases DEFAULT_mitigate_terms (1 / 2) 50
                  DEFAULT_global_knockout_weights ''soft'' thai_bad_numbers) \<and>
           fst (gk_phrase latin_rt blob_mitigated DEFAULT_whitelist_phrases DEFAULT_mitigate_terms (1 / 2) 50
                  DEFAULT_global_knockout_weights ''soft'' thai_bad_numbers) \<le> 0"
    using conjunct1[OF T] m by blast
  from f m w c[unfolded w] show ?thesis by (intro conjI) blast+
qed

text \<open>
  Claim C7. \<open>rule_score\<close> returns on every row whose age does not convert to the float
  \<open>+inf\<close>, and whenever it returns, its reasons are in the evaluation order:
  experience, education, must-have skills, global knockouts, department knockouts,
  training context, nice-to-have, low experience, age, activity.
\<close>

theorem C7_reasons_in_evaluation_order:
  "(to_num rt (row_get r ''age'' (PNum (- 1))) \<noteq> FPosInf \<longrightarrow>
      (\<exists>sc rs. rule_score rt r cfg = Inr (sc, rs))) \<and>
   (\<forall>sc rs. rule_score rt r cfg = Inr (sc, rs) \<longrightarrow> sorted (map stage rs))"
proof (intro conjI allI impI)
  assume "to_num rt (row_get r ''age'' (PNum (- 1))) \<noteq> FPosInf"
  then obtain a where "age_rule rt r cfg = Inr a" using age_rule_returns by blast
  then show "\<exists>sc rs. rule_score rt r cfg = Inr (sc, rs)" using rule_score_Inr by blast
next
  fix sc rs
  assume v: "rule_score rt r cfg = Inr (sc, rs)"
  obtain a where age: "age_rule rt r cfg = Inr a"
    and rs: "rs = snd (exp_rule rt r cfg) @ snd (edu_rule rt r cfg) @ snd (must_rule rt r cfg) @
          snd (gk_rule rt r cfg) @ snd (dept_knockout_rule rt r cfg) @ snd (training_rule rt r cfg) @
          snd (nice_rule rt r cfg) @ snd (low_exp_rule rt r cfg) @ snd a @
          snd (activity_rule rt r cfg)"
    using rule_score_returns[OF v] by blast
  let ?a9 = "snd (activity_rule rt r cfg)"
  let ?a8 = "snd a @ ?a9"
  let ?a7 = "snd (low_exp_rule rt r cfg) @ ?a8"
  let ?a6 = "snd (nice_rule rt r cfg) @ ?a7"
  let ?a5 = "snd (training_rule rt r cfg) @ ?a6"
  let ?a4 = "snd (dept_knockout_rule rt r cfg) @ ?a5"
  let ?a3 = "snd (gk_rule rt r cfg) @ ?a4"
  let ?a2 = "snd (must_rule rt r cfg) @ ?a3"
  let ?a1 = "snd (edu_rule rt r cfg) @ ?a2"
  let ?a0 = "snd (exp_rule rt r cfg) @ ?a1"
  have s9: "sorted (map stage ?a9) \<and> (\<forall>z \<in> set ?a9. 9 \<le> stage z)"
    using stage_activity sorted_stage_const[of ?a9 9] by auto
  have s8: "sorted (map stage ?a8) \<and> (\<forall>z \<in> set ?a8. 8 \<le> stage z)"
    using sorted_stage_step[OF stage_age[OF age] s9] by simp
  have s7: "sorted (map stage ?a7) \<and> (\<forall>z \<in> set ?a7. 7 \<le> stage z)"
    using sorted_stage_step[OF stage_low_exp s8] by simp
  have s6: "sorted (map stage ?a6) \<and> (\<forall>z \<in> set ?a6. 6 \<le> stage z)"
    using sorted_stage_step[OF stage_nice s7] by simp
  have s5: "sorted (map stage ?a5) \<and> (\<forall>z \<in> set ?a5. 5 \<le> stage z)"
    using sorted_stage_step[OF stage_training s6] by simp
  have s4: "sorted (map stage ?a4) \<and> (\<forall>z \<in> set ?a4. 4 \<le> stage z)"
    using sorted_stage_step[OF stage_dept s5] by simp
  have s3: "sorted (map stage ?a3) \<and> (\<forall>z \<in> set ?a3. 3 \<le> stage z)"
    using sorted_stage_step[OF stage_gk s4] by simp
  have s2: "sorted (map stage ?a2) \<and> (\<forall>z \<in> set ?a2. 2 \<le> stage z)"
    using sorted_stage_step[OF stage_must s3] by simp
  have s1: "sorted (map stage ?a1) \<and> (\<forall>z \<in> set ?a1. 1 \<le> stage z)"
    using sorted_stage_step[OF stage_edu s2] by simp
  have s0: "sorted (map stage ?a0) \<and> (\<forall>z \<in> set ?a0. 0 \<le> stage z)"
    using sorted_stage_step[OF stage_exp s1] by simp
  then show "sorted (map stage rs)" unfolding rs by simp
qed

theorem C7_reasons_in_evaluation_order_witness:
  "to_num latin_rt (row_get row_e ''age'' (PNum (- 1))) \<noteq> FPosInf \<and>
   rule_score latin_rt row_e merged_cfg_Programmer =
     Inr (- (51 / 10),
      [ExpMeet (FNum 0),
       EduUnder thai_bachelor,
       MustMissing [cps ''php'', cps ''javascript'', cps ''sql'', cps ''debugging'', cps ''agile''],
       GlobalKnockout [Unmitigated thai_no_teamwork ''soft''],
       DeptKnockout thai_no_teamwork,
       TrainingContext (cps ''python''),
       NiceToHave [cps ''aws''],
       LowExpSkill (cps ''python'') (1 / 2),
       AgeIn 24,
       ActivityBonus [(cps ''github'', 1 / 2)] (1 / 2)]) \<and>
   map stage
      [ExpMeet (FNum 0),
       EduUnder thai_bachelor,
       MustMissing [cps ''php'', cps ''javascript'', cps ''sql'', cps ''debugging'', cps ''agile''],
       GlobalKnockout [Unmitigated thai_no_teamwork ''soft''],
       DeptKnockout thai_no_teamwork,
       TrainingContext (cps ''python''),
       NiceToHave [cps ''aws''],
       LowExpSkill (cps ''python'') (1 / 2),
       AgeIn 24,
       ActivityBonus [(cps ''github'', 1 / 2)] (1 / 2)] = [0, 1, 2, 3, 4, 5, 6, 7, 8, 9] \<and>
   sorted (map stage
      [ExpMeet (FNum 0),
       EduUnder thai_bachelor,
       MustMissing [cps ''php'', cps ''javascript'', cps ''sql'', cps ''debugging'', cps ''agile''],
       GlobalKnockout [Unmitigated thai_no_teamwork ''soft''],
       DeptKnockout thai_no_teamwork,
       TrainingContext (cps ''python''),
       NiceToHave [cps ''aws''],
       LowExpSkill (cps ''python'') (1 / 2),
       AgeIn 24,
       ActivityBonus [(cps ''github'', 1 / 2)] (1 / 2)])"
proof -
  have v: "map stage
      [ExpMeet (FNum 0),
       EduUnder thai_bachelor,
       MustMissing [cps ''php'', cps ''javascript'', cps ''sql'', cps ''debugging'', cps ''agile''],
       GlobalKnockout [Unmitigated thai_no_teamwork ''soft''],
       DeptKnockout thai_no_teamwork,
       TrainingContext (cps ''python''),
       NiceToHave [cps ''aws''],
       LowExpSkill (cps ''python'') (1 / 2),
       AgeIn 24,
       ActivityBonus [(cps ''github'', 1 / 2)] (1 / 2)] = [0, 1, 2, 3, 4, 5, 6, 7, 8, 9]"
    by simp
  note T = C7_reasons_in_evaluation_order[of latin_rt row_e merged_cfg_Programmer]
  have a: "to_num latin_rt (row_get row_e ''age'' (PNum (- 1))) \<noteq> FPosInf"
    by (simp add: row_e_cells to_num_def)
  have s: "sorted (map stage
      [ExpMeet (FNum 0),
       EduUnder thai_bachelor,
       MustMissing [cps ''php'', cps ''javascript'', cps ''sql'', cps ''debugging'', cps ''agile''],
       GlobalKnockout [Unmitigated thai_no_teamwork ''soft''],
       DeptKnockout thai_no_teamwork,
       TrainingContext (cps ''python''),
       NiceToHave [cps ''aws''],
       LowExpSkill (cps ''python'') (1 / 2),
       AgeIn 24,
       ActivityBonus [(cps ''github'', 1 / 2)] (1 / 2)])"
    using conjunct2[OF T] row_e_score by blast
  from a row_e_score v s show ?thesis by (intro conjI)
qed

text \<open>
  Claim C8. Applying \<open>clean_email\<close> to its own result gives that result again, and so
  does \<open>normalize_text\<close>, for every input value (a string or not), on a runtime whose
  \<open>str.lower\<close> leaves whitespace alone and yields lower-case code points.
\<close>

theorem C8_cleaners_idempotent:
  assumes "lower_ok rt"
  shows "clean_email (PStr (clean_email e)) = clean_email e \<and>
         normalize_text rt (PStr (normalize_text rt t)) = normalize_text rt t"
proof -
  have "normalize_text rt (PStr (normalize_text rt t)) = normalize_text rt t"
    by (cases t) (simp_all add: normalize_text_def normalize_str_idem[OF assms] normalize_str_Nil)
  then show ?thesis by (simp add: clean_email_idem)
qed

theorem C8_cleaners_idempotent_witness:
  "lower_ok latin_rt \<and>
   clean_email (PStr (clean_email (PStr ([32, 8203, 160] @ cps ''A b@x.org'' @ [12288, 10]))))
     = cps ''A b@x.org'' \<and>
   normalize_text latin_rt (PStr (normalize_text latin_rt (PStr (cps ''  Hello   WORLD ''))))
     = cps ''hello world''"
  using C8_cleaners_idempotent[OF lower_ok_latin_rt,
      of "PStr ([32, 8203, 160] @ cps ''A b@x.org'' @ [12288, 10])" "PStr (cps ''  Hello   WORLD '')"]
    lower_ok_latin_rt normalize_latin_example clean_email_example
  by simp

text \<open>
  Claim C9. The running penalty is the sum, over the configured phrases, of what each adds,
  and each adds nothing, its tier weight, or its tier weight times the factor: once, however
  often it occurs. When a phrase occurs and nothing is whitelisted, what it adds is decided
  by the window around the least index at which it occurs.
\<close>

theorem C9_phrase_counts_once:
  "fst (gk_running rt blob cfg) =
     sum_list (map (\<lambda>(level, phrase).
         fst (gk_phrase rt blob (gk_wlist rt cfg) (gk_mterms rt cfg) (gk_factor cfg) (gk_ctx cfg)
                (gk_weights cfg) level phrase))
       (gk_entries (gk_lists cfg))) \<and>
   (\<forall>level phrase.
      fst (gk_phrase rt blob wl mt f c ws level phrase)
        \<in> {0, dict_get ws level 0, dict_get ws level 0 * f}) \<and>
   (\<forall>level phrase k.
      normalize_text rt (PStr phrase) \<noteq> [] \<and>
      match_at (normalize_text rt (PStr phrase)) blob k \<and>
      (\<forall>j<k. \<not> match_at (normalize_text rt (PStr phrase)) blob j) \<and>
      \<not> list_ex (\<lambda>w. contains (normalize_text rt (PStr w)) blob) wl \<longrightarrow>
      gk_phrase rt blob wl mt f c ws level phrase =
        (if list_ex (\<lambda>t. contains t
               (py_slice blob (max 0 (int k - c))
                  (min (int (length blob)) (int k + int (length (normalize_text rt (PStr phrase))) + c)))) mt
            \<and> dict_get ws level 0 < 0
         then (dict_get ws level 0 * f, [Mitigated (normalize_text rt (PStr phrase)) level f])
         else (dict_get ws level 0, [Unmitigated (normalize_text rt (PStr phrase)) level])))"
proof -
  have a: "fst (gk_running rt blob cfg) =
     sum_list (map (\<lambda>(level, phrase).
         fst (gk_phrase rt blob (gk_wlist rt cfg) (gk_mterms rt cfg) (gk_factor cfg) (gk_ctx cfg)
                (gk_weights cfg) level phrase))
       (gk_entries (gk_lists cfg)))"
    unfolding gk_running_def gk_scan_entries by simp
  have b: "fst (gk_phrase rt blob wl mt f c ws level phrase)
        \<in> {0, dict_get ws level 0, dict_get ws level 0 * f}" for level phrase
    by (auto simp: gk_phrase_def Let_def split: option.splits)
  have c: "gk_phrase rt blob wl mt f c ws level phrase =
        (if list_ex (\<lambda>t. contains t
               (py_slice blob (max 0 (int k - c))
                  (min (int (length blob)) (int k + int (length (normalize_text rt (PStr phrase))) + c)))) mt
            \<and> dict_get ws level 0 < 0
         then (dict_get ws level 0 * f, [Mitigated (normalize_text rt (PStr phrase)) level f])
         else (dict_get ws level 0, [Unmitigated (normalize_text rt (PStr phrase)) level]))"
    if "normalize_text rt (PStr phrase) \<noteq> []"
      and "match_at (normalize_text rt (PStr phrase)) blob k"
      and "\<forall>j<k. \<not> match_at (normalize_text rt (PStr phrase)) blob j"
      and "\<not> list_ex (\<lambda>w. contains (normalize_text rt (PStr w)) blob) wl"
    for level phrase k
    using that find_eq_least[OF that(2) that(3)] by (simp add: gk_phrase_def Let_def)
  show ?thesis using a b c by blast
qed

theorem C9_phrase_counts_once_witness:
  "match_at thai_cheat blob_twice 0 \<and> match_at thai_cheat blob_twice 4 \<and>
   length (gk_entries (gk_lists merged_cfg_Programmer)) = 24 \<and>
   fst (gk_running latin_rt blob_twice merged_cfg_Programmer) = - 2 \<and>
   match_at thai_cheat blob_far 0 \<and> match_at thai_cheat blob_far 11 \<and> match_at thai_but blob_far 15 \<and>
   gk_phrase latin_rt blob_far DEFAULT_whitelist_phrases DEFAULT_mitigate_terms (1 / 2) 5
     DEFAULT_global_knockout_weights ''hard'' thai_cheat = (- 2, [Unmitigated thai_cheat ''hard''])"
proof -
  have t: "match_at thai_cheat blob_twice 0" "match_at thai_cheat blob_twice 4"
    by (simp_all add: match_at_def starts_with_simps blob_twice_def thai_defs)
  have e: "length (gk_entries (gk_lists merged_cfg_Programmer)) = 24"
    by (simp add: gkP_settings gk_entries_def DEFAULT_global_knockout_def dict_get_def)
  note T = C9_phrase_counts_once[where rt = latin_rt and blob = blob_far and cfg = merged_cfg_Programmer
      and wl = DEFAULT_whitelist_phrases and mt = DEFAULT_mitigate_terms and f = "1 / 2" and c = 5
      and ws = DEFAULT_global_knockout_weights]
  have n: "normalize_text latin_rt (PStr thai_cheat) = thai_cheat"
    by (simp add: thai_defs normal_rules)
  have nw: "\<not> list_ex (\<lambda>w. contains (normalize_text latin_rt (PStr w)) blob_far) DEFAULT_whitelist_phrases"
    by (simp add: DEFAULT_whitelist_phrases_def normal_rules blob_far_def thai_defs cps_def contains_def
        starts_with_simps)
  have pre: "normalize_text latin_rt (PStr thai_cheat) \<noteq> [] \<and>
      match_at (normalize_text latin_rt (PStr thai_cheat)) blob_far 0 \<and>
      (\<forall>j<0. \<not> match_at (normalize_text latin_rt (PStr thai_cheat)) blob_far j) \<and>
      \<not> list_ex (\<lambda>w. contains (normalize_text latin_rt (PStr w)) blob_far) DEFAULT_whitelist_phrases"
    using nw blob_far_occurrences(1) unfolding n by (simp add: thai_defs)
  have far: "gk_phrase latin_rt blob_far DEFAULT_whitelist_phrases DEFAULT_mitigate_terms (1 / 2) 5
     DEFAULT_global_knockout_weights ''hard'' thai_cheat =
        (if list_ex (\<lambda>t. contains t
               (py_slice blob_far (max 0 (int 0 - 5))
                  (min (int (length blob_far)) (int 0 + int (length (normalize_text latin_rt (PStr thai_cheat))) + 5))))
               DEFAULT_mitigate_terms
            \<and> dict_get DEFAULT_global_knockout_weights ''hard'' 0 < 0
         then (dict_get DEFAULT_global_knockout_weights ''hard'' 0 * (1 / 2),
               [Mitigated (normalize_text latin_rt (PStr thai_cheat)) ''hard'' (1 / 2)])
         else (dict_get DEFAULT_global_knockout_weights ''hard'' 0,
               [Unmitigated (normalize_text latin_rt (PStr thai_cheat)) ''hard'']))"
    using conjunct2[OF conjunct2[OF T]] pre by blast
  have v: "gk_phrase latin_rt blob_far DEFAULT_whitelist_phrases DEFAULT_mitigate_terms (1 / 2) 5
     DEFAULT_global_knockout_weights ''hard'' thai_cheat = (- 2, [Unmitigated thai_cheat ''hard''])"
    unfolding far n
    by (simp add: DEFAULT_mitigate_terms_def DEFAULT_global_knockout_weights_def dict_get_def
        blob_far_def thai_defs cps_def contains_def starts_with_simps py_slice_def)
  have tw: "fst (gk_running latin_rt blob_twice merged_cfg_Programmer) = - 2"
    by (simp add: gk_twice)
  from t e tw blob_far_occurrences v show ?thesis by (intro conjI)
qed

text \<open>
  Claim C10 does not hold of every row. When the age cell converts to the float
  \<open>+inf\<close>, the age block passes \<open>age_val >= 0\<close>, fails the range test and formats
  \<open>int(age_val)\<close>, which raises \<open>OverflowError\<close>: \<open>rule_score\<close> returns no list. On
  every other row it returns, and its reasons are at least three: exactly one comes from
  the experience block, exactly one from the must-have block and exactly one from the age
  block.
\<close>

theorem C10_infinite_age_raises:
  "(to_num rt (row_get r ''age'' (PNum (- 1))) = FPosInf \<longrightarrow>
      rule_score rt r cfg = Inl OverflowError) \<and>
   (to_num rt (row_get r ''age'' (PNum (- 1))) \<noteq> FPosInf \<longrightarrow>
      (\<exists>sc rs. rule_score rt r cfg = Inr (sc, rs) \<and> 3 \<le> length rs \<and>
         filter (\<lambda>x. stage x = 0) rs = snd (exp_rule rt r cfg) \<and>
         length (snd (exp_rule rt r cfg)) = 1 \<and>
         filter (\<lambda>x. stage x = 2) rs = snd (must_rule rt r cfg) \<and>
         length (snd (must_rule rt r cfg)) = 1 \<and>
         length (filter (\<lambda>x. stage x = 8) rs) = 1))"
proof (intro conjI impI)
  assume "to_num rt (row_get r ''age'' (PNum (- 1))) = FPosInf"
  then have "age_rule rt r cfg = Inl OverflowError" by (simp add: age_rule_raises)
  then show "rule_score rt r cfg = Inl OverflowError" by (rule rule_score_Inl)
next
  assume "to_num rt (row_get r ''age'' (PNum (- 1))) \<noteq> FPosInf"
  then obtain a where "age_rule rt r cfg = Inr a" using age_rule_returns by blast
  then obtain sc rs where v: "rule_score rt r cfg = Inr (sc, rs)"
    using rule_score_Inr by blast
  show "\<exists>sc rs. rule_score rt r cfg = Inr (sc, rs) \<and> 3 \<le> length rs \<and>
         filter (\<lambda>x. stage x = 0) rs = snd (exp_rule rt r cfg) \<and>
         length (snd (exp_rule rt r cfg)) = 1 \<and>
         filter (\<lambda>x. stage x = 2) rs = snd (must_rule rt r cfg) \<and>
         length (snd (must_rule rt r cfg)) = 1 \<and>
         length (filter (\<lambda>x. stage x = 8) rs) = 1"
    using v rule_score_three_reasons[OF v] by blast
qed

theorem C10_infinite_age_raises_witness:
  "row_inf = row_a(''age'' \<mapsto> PInf) \<and>
   to_num latin_rt (row_get row_inf ''age'' (PNum (- 1))) = FPosInf \<and>
   rule_score latin_rt row_inf merged_cfg_Programmer = Inl OverflowError \<and>
   to_num latin_rt (row_get row_a ''age'' (PNum (- 1))) \<noteq> FPosInf \<and>
   rule_score latin_rt row_a merged_cfg_Programmer =
     Inr (- (11 / 10), [ExpMeet (FNum 0), MustMissing Programmer_must_have_skills, AgeIn 24]) \<and>
   3 \<le> length [ExpMeet (FNum 0), MustMissing Programmer_must_have_skills, AgeIn 24]"
proof -
  note Ti = C10_infinite_age_raises[of latin_rt row_inf merged_cfg_Programmer]
  note Ta = C10_infinite_age_raises[of latin_rt row_a merged_cfg_Programmer]
  have d: "row_inf = row_a(''age'' \<mapsto> PInf)" by (simp add: row_inf_def)
  have i: "to_num latin_rt (row_get row_inf ''age'' (PNum (- 1))) = FPosInf" by (rule row_inf_age)
  have e: "rule_score latin_rt row_inf merged_cfg_Programmer = Inl OverflowError"
    using conjunct1[OF Ti] i by blast
  have a: "to_num latin_rt (row_get row_a ''age'' (PNum (- 1))) \<noteq> FPosInf"
    by (simp add: row_a_cells to_num_def)
  have l: "3 \<le> length [ExpMeet (FNum 0), MustMissing Programmer_must_have_skills, AgeIn 24]"
    using conjunct2[OF Ta] a row_a_score by auto
  from d i e a row_a_score l show ?thesis by (intro conjI)
qed

end
